theory Spec2Isabelle
  imports Main "HOL-Library.Sublist"
begin

text \<open>
  A model of the Infura middleware of \<open>eth-json-rpc-infura\<close> as Brave ships it: the
  construction of the middleware, the translation of a JSON-RPC request into an HTTP
  request, one attempt (\<open>performFetch\<close>) and the retry loop around it. The first half of
  the theory translates the code of \<open>src/index.js\<close> and of the second source file
  function by function; the second half states and proves what the code does.
\<close>

section \<open>JavaScript values and errors\<close>

text \<open>
  Values that travel through the middleware are JSON values. Numbers are the integers;
  strings are byte sequences. A property or variable that is \<open>undefined\<close> is \<open>None\<close>
  of an option type.
\<close>

datatype json =
    JNull
  | JBool bool
  | JNum int
  | JStr string
  | JArr "json list"
  | JObj "(string \<times> json) list"

text \<open>
  Error objects. \<open>Native name message\<close> is an error of the platform: \<open>new Error(m)\<close> is
  \<open>Native ''Error'' m\<close>, a failure of \<open>JSON.parse\<close> is \<open>Native ''SyntaxError'' m\<close>, and the
  rejections of \<open>fetch\<close> are of this shape too. \<open>MethodNotFound\<close> is
  \<open>rpcErrors.methodNotFound()\<close> and \<open>InternalError m\<close> is \<open>createInternalError(m)\<close>;
  both come from the JSON-RPC error library.
\<close>

datatype js_error =
    Native string string
  | MethodNotFound
  | InternalError string

text \<open>
  The string form of the library's errors is the library's business: it is a parameter.
\<close>

record errlib =
  methodNotFoundText :: string
  internalText :: "string \<Rightarrow> string"

text \<open>\<open>err.toString()\<close>; for platform errors this is \<open>Error.prototype.toString\<close>.\<close>

fun toString :: "errlib \<Rightarrow> js_error \<Rightarrow> string" where
  "toString lib (Native name msg) =
     (if name = [] then msg else if msg = [] then name else name @ '': '' @ msg)"
| "toString lib MethodNotFound = methodNotFoundText lib"
| "toString lib (InternalError msg) = internalText lib msg"

subsection \<open>String helpers of the platform\<close>

fun startsWith :: "string \<Rightarrow> string \<Rightarrow> bool" where
  "startsWith s [] = True"
| "startsWith [] (p # ps) = False"
| "startsWith (c # cs) (p # ps) = (c = p \<and> startsWith cs ps)"

text \<open>\<open>s.includes(p)\<close>: case-sensitive substring containment.\<close>

fun str_includes :: "string \<Rightarrow> string \<Rightarrow> bool" where
  "str_includes [] p = (p = [])"
| "str_includes (c # cs) p = (startsWith (c # cs) p \<or> str_includes cs p)"

definition digitChar :: "nat \<Rightarrow> char" where
  "digitChar d = char_of (48 + d)"

fun showNat :: "nat \<Rightarrow> string" where
  "showNat n = (if n < 10 then [digitChar n] else showNat (n div 10) @ [digitChar (n mod 10)])"

declare showNat.simps [simp del]

definition showInt :: "int \<Rightarrow> string" where
  "showInt i = (if i < 0 then CHR ''-'' # showNat (nat (- i)) else showNat (nat i))"

section \<open>Construction of the middleware\<close>

definition RETRIABLE_ERRORS :: "string list" where
  "RETRIABLE_ERRORS = [''Gateway timeout'', ''ETIMEDOUT'', ''ECONNRESET'', ''SyntaxError'']"

record infura_opts =
  opt_network :: "string option"
  opt_maxAttempts :: "int option"
  opt_source :: "string option"
  opt_dev :: bool

record middleware =
  mw_network :: string
  mw_maxAttempts :: int
  mw_source :: "string option"
  mw_dev :: bool

text \<open>\<open>opts.network || 'mainnet'\<close>: an absent or empty string is falsy.\<close>

definition orString :: "string option \<Rightarrow> string \<Rightarrow> string" where
  "orString v d = (case v of None \<Rightarrow> d | Some s \<Rightarrow> if s = [] then d else s)"

text \<open>\<open>opts.maxAttempts || 5\<close>: an absent number and zero are falsy.\<close>

definition orNumber :: "int option \<Rightarrow> int \<Rightarrow> int" where
  "orNumber v d = (case v of None \<Rightarrow> d | Some n \<Rightarrow> if n = 0 then d else n)"

definition invalidMaxAttempts :: "int \<Rightarrow> js_error" where
  "invalidMaxAttempts n =
     Native ''Error'' (''Invalid value for 'maxAttempts': \"'' @ showInt n @ ''\" (number)'')"

definition createInfuraMiddleware :: "infura_opts \<Rightarrow> js_error + middleware" where
  "createInfuraMiddleware opts =
     (let network = orString (opt_network opts) ''mainnet'';
          maxAttempts = orNumber (opt_maxAttempts opts) 5;
          source = opt_source opts
      in if maxAttempts = 0 then Inl (invalidMaxAttempts maxAttempts)
         else Inr \<lparr>mw_network = network, mw_maxAttempts = maxAttempts,
                   mw_source = source, mw_dev = opt_dev opts\<rparr>)"

section \<open>Requests, responses and the platform\<close>

text \<open>
  The inbound request. Only \<open>id\<close>, \<open>jsonrpc\<close>, \<open>method\<close>, \<open>params\<close> and \<open>origin\<close> are
  read by the code; \<open>req_extra\<close> holds every other property the caller attached. The
  four forwarded properties are present and hold JSON values, \<open>params\<close> an array; only
  \<open>origin\<close> may be missing.
\<close>

record rpc_request =
  req_id :: json
  req_jsonrpc :: json
  req_method :: string
  req_params :: "json list"
  req_origin :: "string option"
  req_extra :: "(string \<times> json) list"

record rpc_response =
  res_result :: "json option"
  res_error :: "json option"

record http_response =
  resp_status :: nat
  resp_text :: string

text \<open>\<open>response.ok\<close> of the Fetch API: the status is in the range 200 to 299.\<close>

definition ok :: "http_response \<Rightarrow> bool" where
  "ok response = (200 \<le> resp_status response \<and> resp_status response \<le> 299)"

record fetchParams =
  fp_method :: string
  fp_headers :: "(string \<times> string) list option"
  fp_body :: "string option"

text \<open>
  How the wallet API treats the callback it is given: it calls it before returning,
  calls it later, or never calls it.
\<close>

datatype 'a callback = Sync 'a | Async 'a | Never

text \<open>
  What the module imports or finds in its host: the allow-list \<open>./postMethods\<close>, \<open>JSON\<close>,
  the error library, \<open>fetch\<close> together with \<open>response.text()\<close> (the first argument counts
  the calls made before this one, so that a transport may answer each attempt
  differently), and \<open>chrome.braveWallet\<close> (\<open>getBraveKey\<close> is \<open>None\<close> where the wallet does
  not have it).
\<close>

record platform =
  postMethods :: "string list"
  JSON_stringify :: "json \<Rightarrow> string"
  JSON_parse :: "string \<Rightarrow> string + json"
  rpcErrors :: errlib
  fetch :: "nat \<Rightarrow> string \<Rightarrow> fetchParams \<Rightarrow> js_error + http_response"
  getProjectID :: "string callback"
  getBraveKey :: "string callback option"

text \<open>
  The mutable state: the response envelope \<open>res\<close>, the two module variables of the
  second source file, and three counters of effects: calls of \<open>fetch\<close>, calls of
  \<open>JSON.parse\<close>, and the delays handed to \<open>setTimeout\<close>.
\<close>

record world =
  res :: rpc_response
  calls :: nat
  parses :: nat
  timers :: "nat list"
  BRAVE_KEY :: string
  BRAVE_INFURA_PROJECT_ID :: string

subsection \<open>Property access and conversion to string\<close>

text \<open>
  \<open>data.key\<close> for a value that is not \<open>null\<close>; the list of an object holds its own
  properties, each key once.
\<close>

fun getProp :: "json \<Rightarrow> string \<Rightarrow> json option" where
  "getProp (JObj kvs) k = map_of kvs k"
| "getProp v k = None"

text \<open>\<open>obj[k] = v\<close> on an object kept as a list of properties in insertion order.\<close>

fun setProp :: "(string \<times> 'v) list \<Rightarrow> string \<Rightarrow> 'v \<Rightarrow> (string \<times> 'v) list" where
  "setProp [] k v = [(k, v)]"
| "setProp ((k', v') # r) k v = (if k' = k then (k, v) # r else (k', v') # setProp r k v)"

text \<open>\<open>String(v)\<close>, and \<open>Array.prototype.toString\<close>, which joins with commas and renders
  \<open>null\<close> elements as the empty string.\<close>

fun jsToString :: "json \<Rightarrow> string" and arrayJoin :: "json list \<Rightarrow> string" where
  "jsToString JNull = ''null''"
| "jsToString (JBool b) = (if b then ''true'' else ''false'')"
| "jsToString (JNum n) = showInt n"
| "jsToString (JStr s) = s"
| "jsToString (JArr xs) = arrayJoin xs"
| "jsToString (JObj kvs) = ''[object Object]''"
| "arrayJoin [] = []"
| "arrayJoin (x # xs) =
     (if x = JNull then [] else jsToString x) @ (if xs = [] then [] else '','' @ arrayJoin xs)"

subsection \<open>Percent-encoding\<close>

definition uriUnreserved :: "char \<Rightarrow> bool" where
  "uriUnreserved c =
     (c \<in> set ''ABCDEFGHIJKLMNOPQRSTUVWXYZabcdefghijklmnopqrstuvwxyz0123456789-_.!~*()''
      \<or> c = CHR 0x27)"

definition hexDigit :: "nat \<Rightarrow> char" where
  "hexDigit n = ''0123456789ABCDEF'' ! n"

definition hexVal :: "char \<Rightarrow> nat option" where
  "hexVal c =
     (let n = (of_char c :: nat) in
      if 48 \<le> n \<and> n \<le> 57 then Some (n - 48)
      else if 65 \<le> n \<and> n \<le> 70 then Some (n - 55)
      else if 97 \<le> n \<and> n \<le> 102 then Some (n - 87)
      else None)"

definition percentEncode :: "char \<Rightarrow> string" where
  "percentEncode c =
     [CHR ''%'', hexDigit ((of_char c :: nat) div 16), hexDigit ((of_char c :: nat) mod 16)]"

text \<open>\<open>encodeURIComponent\<close> on the bytes of a string.\<close>

definition encodeURIComponent :: "string \<Rightarrow> string" where
  "encodeURIComponent s = concat (map (\<lambda>c. if uriUnreserved c then [c] else percentEncode c) s)"

text \<open>\<open>decodeURIComponent\<close>; \<open>None\<close> is its \<open>URIError\<close>.\<close>

fun decodeURIComponent :: "string \<Rightarrow> string option" where
  "decodeURIComponent [] = Some []"
| "decodeURIComponent [c] = (if c = CHR ''%'' then None else Some [c])"
| "decodeURIComponent [c, a] =
     (if c = CHR ''%'' then None else map_option ((#) c) (decodeURIComponent [a]))"
| "decodeURIComponent (c # a # b # rest) =
     (if c = CHR ''%''
      then (case (hexVal a, hexVal b) of
              (Some x, Some y) \<Rightarrow>
                map_option ((#) (char_of (16 * x + y))) (decodeURIComponent rest)
            | _ \<Rightarrow> None)
      else map_option ((#) c) (decodeURIComponent (a # b # rest)))"

subsection \<open>Reading a query parameter back from a URL\<close>

text \<open>
  The query of a URL starts after its first \<open>?\<close> and ends before its first \<open>#\<close>; it is a
  list of \<open>name=value\<close> pairs separated by \<open>&\<close>.
\<close>

definition urlQuery :: "string \<Rightarrow> string option" where
  "urlQuery url =
     (let u = takeWhile (\<lambda>c. c \<noteq> CHR ''#'') url
      in if CHR ''?'' \<in> set u then Some (drop 1 (dropWhile (\<lambda>c. c \<noteq> CHR ''?'') u)) else None)"

fun splitOn :: "char \<Rightarrow> string \<Rightarrow> string list" where
  "splitOn d [] = [[]]"
| "splitOn d (c # cs) =
     (if c = d then [] # splitOn d cs
      else (case splitOn d cs of [] \<Rightarrow> [[c]] | p # ps \<Rightarrow> (c # p) # ps))"

definition nameValue :: "string \<Rightarrow> string \<times> string" where
  "nameValue s =
     (takeWhile (\<lambda>c. c \<noteq> CHR ''='') s, drop 1 (dropWhile (\<lambda>c. c \<noteq> CHR ''='') s))"

definition queryParam :: "string \<Rightarrow> string \<Rightarrow> string option" where
  "queryParam url key =
     (case urlQuery url of
        None \<Rightarrow> None
      | Some q \<Rightarrow> map_of (map nameValue (splitOn CHR ''&'' q)) key)"

text \<open>A piece of text that can stand in a URL before the query without starting a query
  or a fragment.\<close>

definition plainSegment :: "string \<Rightarrow> bool" where
  "plainSegment s = (CHR ''?'' \<notin> set s \<and> CHR ''#'' \<notin> set s)"

text \<open>The value of \<open>params\<close> in the query, percent-decoded and parsed as JSON.\<close>

definition paramsOfUrl :: "platform \<Rightarrow> string \<Rightarrow> json option" where
  "paramsOfUrl pf url =
     (case queryParam url ''params'' of
        None \<Rightarrow> None
      | Some v \<Rightarrow>
          (case decodeURIComponent v of
             None \<Rightarrow> None
           | Some s \<Rightarrow> (case JSON_parse pf s of Inl m \<Rightarrow> None | Inr j \<Rightarrow> Some j)))"

section \<open>Request translation\<close>

definition cleanReq :: "rpc_request \<Rightarrow> json" where
  "cleanReq req =
     JObj [(''id'', req_id req), (''jsonrpc'', req_jsonrpc req),
           (''method'', JStr (req_method req)), (''params'', JArr (req_params req))]"

text \<open>The attribution header, present when \<open>source\<close> is a non-empty string.\<close>

definition sourceHeader :: "string option \<Rightarrow> string \<Rightarrow> (string \<times> string) list" where
  "sourceHeader source requestOrigin =
     (case source of
        None \<Rightarrow> []
      | Some s \<Rightarrow> if s = [] then [] else [(''Infura-Source'', s @ ''/'' @ requestOrigin)])"

text \<open>
  \<open>fetchConfigFromReq\<close> of \<open>src/index.js\<close>. The project id reaches the URL only where the
  wallet calls the callback before returning.
\<close>

definition fetchConfigFromReq ::
  "platform \<Rightarrow> string \<Rightarrow> rpc_request \<Rightarrow> string option \<Rightarrow> string \<times> fetchParams" where
  "fetchConfigFromReq pf network req source =
     (let requestOrigin = orString (req_origin req) ''internal'';
          method = req_method req;
          params = req_params req;
          isPostMethod = (method \<in> set (postMethods pf));
          fetchUrl = ''https://'' @ network @ ''.infura.io/v3/'';
          fetchUrl = (case getProjectID pf of Sync projectId \<Rightarrow> fetchUrl @ projectId
                      | _ \<Rightarrow> fetchUrl)
      in if isPostMethod then
           (fetchUrl,
            \<lparr>fp_method = ''POST'',
             fp_headers = Some ([(''Accept'', ''application/json''),
                                 (''Content-Type'', ''application/json'')]
                                @ sourceHeader source requestOrigin),
             fp_body = Some (JSON_stringify pf (cleanReq req))\<rparr>)
         else
           (fetchUrl @ ''/'' @ method @ ''?params=''
              @ encodeURIComponent (JSON_stringify pf (JArr params)),
            \<lparr>fp_method = ''GET'',
             fp_headers = (if sourceHeader source requestOrigin = [] then None
                           else Some (sourceHeader source requestOrigin)),
             fp_body = None\<rparr>))"

text \<open>The second source file: cache hints, the Brave hosts and the Brave key.\<close>

definition getCacheHeader :: "string \<Rightarrow> json list \<Rightarrow> (string \<times> string) option" where
  "getCacheHeader method params =
     (if method = ''eth_getBlockByNumber'' then Some (''X-Eth-Get-Block'', arrayJoin params)
      else if method = ''eth_blockNumber'' then Some (''X-Eth-Block'', ''true'')
      else None)"

definition fetchConfigFromReq_brave ::
  "platform \<Rightarrow> world \<Rightarrow> string \<Rightarrow> rpc_request \<Rightarrow> string option \<Rightarrow> bool
     \<Rightarrow> string \<times> fetchParams" where
  "fetchConfigFromReq_brave pf w network req source dev =
     (let requestOrigin = orString (req_origin req) ''internal'';
          method = req_method req;
          params = req_params req;
          isPostMethod = (method \<in> set (postMethods pf));
          host = (if dev then ''staging-infura.bravesoftware'' else ''infura.brave'');
          fetchUrl = ''https://'' @ network @ ''-'' @ host @ ''.com/''
                       @ BRAVE_INFURA_PROJECT_ID w
      in if isPostMethod then
           (let headers = [(''Accept'', ''application/json''),
                           (''Content-Type'', ''application/json''),
                           (''X-Eth-Method'', method)]
                          @ sourceHeader source requestOrigin;
                headers = (case getCacheHeader method params of
                             None \<Rightarrow> headers
                           | Some (name, v) \<Rightarrow> setProp headers name v);
                headers = (if BRAVE_KEY w \<noteq> [] then setProp headers ''x-brave-key'' (BRAVE_KEY w)
                           else headers)
            in (fetchUrl,
                \<lparr>fp_method = ''POST'', fp_headers = Some headers,
                 fp_body = Some (JSON_stringify pf (cleanReq req))\<rparr>))
         else
           (fetchUrl @ ''/'' @ method @ ''?params=''
              @ encodeURIComponent (JSON_stringify pf (JArr params)),
            \<lparr>fp_method = ''GET'',
             fp_headers = (if sourceHeader source requestOrigin = [] then None
                           else Some (sourceHeader source requestOrigin)),
             fp_body = None\<rparr>))"

section \<open>One attempt\<close>

definition createInternalError :: "string \<Rightarrow> js_error" where
  "createInternalError msg = InternalError msg"

definition nullPropertyError :: js_error where
  "nullPropertyError = Native ''TypeError'' (''Cannot read property 'result' of null'')"

text \<open>
  \<open>performFetch\<close>. Both source files have the same body; they differ in the
  \<open>fetchConfigFromReq\<close> they call, which is the argument \<open>fc\<close>.
\<close>

definition performFetch ::
  "platform \<Rightarrow> (world \<Rightarrow> rpc_request \<Rightarrow> string \<times> fetchParams) \<Rightarrow> rpc_request \<Rightarrow> world
     \<Rightarrow> (js_error + unit) \<times> world" where
  "performFetch pf fc req w =
     (let (fetchUrl, fetchParams) = fc w req;
          w1 = w\<lparr>calls := calls w + 1\<rparr>
      in case fetch pf (calls w) fetchUrl fetchParams of
           Inl err \<Rightarrow> (Inl err, w1)
         | Inr response \<Rightarrow>
             (let rawData = resp_text response
              in if \<not> ok response then
                   (if resp_status response = 405 then (Inl MethodNotFound, w1)
                    else if resp_status response = 418 then
                      (Inl (createInternalError ''Request is being rate limited.''), w1)
                    else if resp_status response = 503 \<or> resp_status response = 504 then
                      (Inl (createInternalError
                              ''Gateway timeout, request took too long to process.''), w1)
                    else (Inl (createInternalError rawData), w1))
                 else if req_method req = ''eth_getBlockByNumber'' \<and> rawData = ''Not Found''
                 then (Inr (), w1\<lparr>res := (res w1)\<lparr>res_result := Some JNull\<rparr>\<rparr>)
                 else
                   (let w2 = w1\<lparr>parses := parses w1 + 1\<rparr>
                    in case JSON_parse pf rawData of
                         Inl m \<Rightarrow> (Inl (Native ''SyntaxError'' m), w2)
                       | Inr data \<Rightarrow>
                           if data = JNull then (Inl nullPropertyError, w2)
                           else (Inr (), w2\<lparr>res := \<lparr>res_result = getProp data ''result'',
                                                      res_error = getProp data ''error''\<rparr>\<rparr>))))"

section \<open>The retry driver\<close>

text \<open>\<open>RETRIABLE_ERRORS.some(phrase => s.includes(phrase))\<close> for a string \<open>s\<close>.\<close>

definition retriableText :: "string \<Rightarrow> bool" where
  "retriableText s = list_ex (\<lambda>phrase. str_includes s phrase) RETRIABLE_ERRORS"

definition canRetry :: "platform \<Rightarrow> js_error \<Rightarrow> bool" where
  "canRetry pf err = retriableText (toString (rpcErrors pf) err)"

text \<open>
  What the retry decision needs of the error library for an internal error with message
  \<open>m\<close>: the string form of the error contains a retriable phrase exactly when \<open>m\<close> does.
\<close>

definition rendersMessage :: "errlib \<Rightarrow> string \<Rightarrow> bool" where
  "rendersMessage lib m = (retriableText (internalText lib m) = retriableText m)"

definition retriesExhaustedErr :: "platform \<Rightarrow> js_error \<Rightarrow> js_error" where
  "retriesExhaustedErr pf err =
     Native ''Error''
       (''InfuraProvider - cannot complete request, all retries have been exhausted.''
        @ [CHR 0x0A] @ ''Original Error:'' @ [CHR 0x0A]
        @ toString (rpcErrors pf) err @ [CHR 0x0A, CHR 0x0A])"

text \<open>
  The function the catch block builds: called, it would hand a 1000 ms timer to
  \<open>setTimeout\<close> and wait for it.
\<close>

definition delayFunction :: "world \<Rightarrow> world" where
  "delayFunction w = w\<lparr>timers := timers w @ [1000]\<rparr>"

text \<open>\<open>await v\<close> for a value \<open>v\<close> that is not a promise: execution resumes with \<open>v\<close>; a
  function given as \<open>v\<close> is not called.\<close>

definition await_value :: "'a \<Rightarrow> world \<Rightarrow> world" where
  "await_value v w = w"

function retryLoop ::
  "platform \<Rightarrow> (world \<Rightarrow> rpc_request \<Rightarrow> string \<times> fetchParams) \<Rightarrow> int \<Rightarrow> rpc_request
     \<Rightarrow> int \<Rightarrow> world \<Rightarrow> (js_error + unit) \<times> world" where
  "retryLoop pf fc maxAttempts req attempt w =
     (if attempt \<le> maxAttempts then
        (case performFetch pf fc req w of
           (Inr u, w1) \<Rightarrow> (Inr (), w1)
         | (Inl err, w1) \<Rightarrow>
             if \<not> canRetry pf err then (Inl err, w1)
             else if maxAttempts - attempt = 0 then (Inl (retriesExhaustedErr pf err), w1)
             else retryLoop pf fc maxAttempts req (attempt + 1) (await_value delayFunction w1))
      else (Inr (), w))"
  by pat_completeness auto
termination
  by (relation "measure (\<lambda>(pf, fc, maxAttempts, req, attempt, w). nat (maxAttempts + 1 - attempt))")
     auto

declare retryLoop.simps [simp del]

text \<open>
  The request handler of \<open>src/index.js\<close>; \<open>fetchConfig\<close> is the call of
  \<open>fetchConfigFromReq\<close> that its \<open>performFetch\<close> makes.
\<close>

definition fetchConfig ::
  "platform \<Rightarrow> middleware \<Rightarrow> world \<Rightarrow> rpc_request \<Rightarrow> string \<times> fetchParams" where
  "fetchConfig pf mw w req = fetchConfigFromReq pf (mw_network mw) req (mw_source mw)"

definition infuraMiddleware ::
  "platform \<Rightarrow> middleware \<Rightarrow> rpc_request \<Rightarrow> world \<Rightarrow> (js_error + unit) \<times> world" where
  "infuraMiddleware pf mw req w =
     retryLoop pf (fetchConfig pf mw) (mw_maxAttempts mw) req 1 w"

text \<open>
  The request handler of the second source file fills the two module variables first.
  A promise that is never resolved leaves the handler waiting for ever: \<open>None\<close>.
\<close>

definition setProjectId :: "platform \<Rightarrow> world \<Rightarrow> world option" where
  "setProjectId pf w =
     (case getProjectID pf of
        Sync projectId \<Rightarrow> Some (w\<lparr>BRAVE_INFURA_PROJECT_ID := projectId\<rparr>)
      | Async projectId \<Rightarrow> Some (w\<lparr>BRAVE_INFURA_PROJECT_ID := projectId\<rparr>)
      | Never \<Rightarrow> None)"

definition setBraveKey :: "platform \<Rightarrow> world \<Rightarrow> world option" where
  "setBraveKey pf w =
     (case getBraveKey pf of
        None \<Rightarrow> Some w
      | Some (Sync key) \<Rightarrow> Some (w\<lparr>BRAVE_KEY := key\<rparr>)
      | Some (Async key) \<Rightarrow> Some (w\<lparr>BRAVE_KEY := key\<rparr>)
      | Some Never \<Rightarrow> None)"

text \<open>The two conditional statements that open the handler.\<close>

definition ensureCredentials :: "platform \<Rightarrow> world \<Rightarrow> world option" where
  "ensureCredentials pf w =
     (case (if BRAVE_INFURA_PROJECT_ID w = [] then setProjectId pf w else Some w) of
        None \<Rightarrow> None
      | Some w1 \<Rightarrow> (if BRAVE_KEY w1 = [] then setBraveKey pf w1 else Some w1))"

definition fetchConfig_brave ::
  "platform \<Rightarrow> middleware \<Rightarrow> world \<Rightarrow> rpc_request \<Rightarrow> string \<times> fetchParams" where
  "fetchConfig_brave pf mw w req =
     fetchConfigFromReq_brave pf w (mw_network mw) req (mw_source mw) (mw_dev mw)"

definition infuraMiddleware_brave ::
  "platform \<Rightarrow> middleware \<Rightarrow> rpc_request \<Rightarrow> world \<Rightarrow> ((js_error + unit) \<times> world) option" where
  "infuraMiddleware_brave pf mw req w =
     (case ensureCredentials pf w of
        None \<Rightarrow> None
      | Some w2 \<Rightarrow>
          Some (retryLoop pf (fetchConfig_brave pf mw) (mw_maxAttempts mw) req 1 w2))"

section \<open>A sample platform\<close>

text \<open>
  Concrete instances of the platform's parameters, on which the statements below are
  exercised: an error library that renders its errors as \<open>Error.prototype.toString\<close>
  does, a compact JSON printer, a JSON reader that knows the documents of a given list
  of values, and a transport given as a script of outcomes.
\<close>

definition sample_errlib :: errlib where
  "sample_errlib =
     \<lparr>methodNotFoundText = ''Error: The method does not exist / is not available.'',
      internalText = (\<lambda>m. ''Error: '' @ m)\<rparr>"

definition quoteString :: "string \<Rightarrow> string" where
  "quoteString s =
     CHR 0x22 # concat (map (\<lambda>c. if c = CHR 0x22 \<or> c = CHR 0x5C then [CHR 0x5C, c] else [c]) s)
       @ [CHR 0x22]"

fun sample_stringify :: "json \<Rightarrow> string"
  and stringifyElements :: "json list \<Rightarrow> string"
  and stringifyMembers :: "(string \<times> json) list \<Rightarrow> string" where
  "sample_stringify JNull = ''null''"
| "sample_stringify (JBool b) = (if b then ''true'' else ''false'')"
| "sample_stringify (JNum n) = showInt n"
| "sample_stringify (JStr s) = quoteString s"
| "sample_stringify (JArr xs) = ''['' @ stringifyElements xs @ '']''"
| "sample_stringify (JObj kvs) = ''{'' @ stringifyMembers kvs @ ''}''"
| "stringifyElements [] = []"
| "stringifyElements (x # xs) =
     sample_stringify x @ (if xs = [] then [] else '','' @ stringifyElements xs)"
| "stringifyMembers [] = []"
| "stringifyMembers ((k, v) # r) =
     quoteString k @ '':'' @ sample_stringify v
       @ (if r = [] then [] else '','' @ stringifyMembers r)"

definition sample_parse :: "json list \<Rightarrow> string \<Rightarrow> string + json" where
  "sample_parse known s =
     (case find (\<lambda>v. sample_stringify v = s) known of
        Some v \<Rightarrow> Inr v
      | None \<Rightarrow> Inl ''Unexpected token in JSON'')"

definition sample_platform ::
  "json list \<Rightarrow> (nat \<Rightarrow> string \<Rightarrow> fetchParams \<Rightarrow> js_error + http_response) \<Rightarrow> platform" where
  "sample_platform known transport =
     \<lparr>postMethods = [''eth_call'', ''eth_estimateGas'', ''eth_sendRawTransaction''],
      JSON_stringify = sample_stringify,
      JSON_parse = sample_parse known,
      rpcErrors = sample_errlib,
      fetch = transport,
      getProjectID = Sync ''0123456789abcdef'',
      getBraveKey = None\<rparr>"

definition sample_request :: rpc_request where
  "sample_request =
     \<lparr>req_id = JNum 1, req_jsonrpc = JStr ''2.0'', req_method = ''eth_getBlockByNumber'',
      req_params = [JStr ''0x1b4'', JBool True], req_origin = Some ''example.org'',
      req_extra = [(''origin'', JStr ''example.org''), (''tabId'', JNum 7)]\<rparr>"

definition sample_middleware :: "int \<Rightarrow> middleware" where
  "sample_middleware n =
     \<lparr>mw_network = ''mainnet'', mw_maxAttempts = n, mw_source = Some ''metamask'',
      mw_dev = False\<rparr>"

definition world0 :: world where
  "world0 =
     \<lparr>res = \<lparr>res_result = None, res_error = None\<rparr>, calls = 0, parses = 0, timers = [],
      BRAVE_KEY = [], BRAVE_INFURA_PROJECT_ID = []\<rparr>"

text \<open>A transport on which every request times out.\<close>

definition timeoutError :: js_error where
  "timeoutError = Native ''Error'' ''connect ETIMEDOUT 10.0.0.1:443''"

definition alwaysTimeout :: "nat \<Rightarrow> string \<Rightarrow> fetchParams \<Rightarrow> js_error + http_response" where
  "alwaysTimeout n url fp = Inl timeoutError"

text \<open>A transport that refuses every request with an error that is not retriable.\<close>

definition deniedError :: js_error where
  "deniedError = Native ''Error'' ''permission denied''"

definition alwaysDenied :: "nat \<Rightarrow> string \<Rightarrow> fetchParams \<Rightarrow> js_error + http_response" where
  "alwaysDenied n url fp = Inl deniedError"

text \<open>A transport that times out twice and answers the third call.\<close>

definition sample_reply :: json where
  "sample_reply = JObj [(''jsonrpc'', JStr ''2.0''), (''id'', JNum 1), (''result'', JStr ''0x10'')]"

definition flakyTransport :: "nat \<Rightarrow> string \<Rightarrow> fetchParams \<Rightarrow> js_error + http_response" where
  "flakyTransport n url fp =
     (if n < 2 then Inl timeoutError
      else Inr \<lparr>resp_status = 200, resp_text = sample_stringify sample_reply\<rparr>)"

definition timeoutPlatform :: platform where
  "timeoutPlatform = sample_platform [] alwaysTimeout"

definition deniedPlatform :: platform where
  "deniedPlatform = sample_platform [] alwaysDenied"

definition flakyPlatform :: platform where
  "flakyPlatform = sample_platform [sample_reply] flakyTransport"

text \<open>A transport that answers every call with the given status and body.\<close>

definition statusTransport ::
  "nat \<Rightarrow> string \<Rightarrow> nat \<Rightarrow> string \<Rightarrow> fetchParams \<Rightarrow> js_error + http_response" where
  "statusTransport code body n url fp = Inr \<lparr>resp_status = code, resp_text = body\<rparr>"

definition statusPlatform :: "nat \<Rightarrow> string \<Rightarrow> platform" where
  "statusPlatform code body = sample_platform [] (statusTransport code body)"

text \<open>Requests for the two verbs, and one whose method name carries a query of its own.\<close>

definition callRequest :: rpc_request where
  "callRequest = sample_request\<lparr>req_method := ''eth_call''\<rparr>"

definition oddRequest :: rpc_request where
  "oddRequest = sample_request\<lparr>req_method := ''eth_getBalance?tag=latest''\<rparr>"

definition jsonPlatform :: "json list \<Rightarrow> platform" where
  "jsonPlatform known = sample_platform known alwaysTimeout"

section \<open>Construction-time validation\<close>

lemma createInfuraMiddleware_total:
  "\<exists>mw. createInfuraMiddleware opts = Inr mw"
  by (simp add: createInfuraMiddleware_def orNumber_def Let_def split: option.splits)

lemma createInfuraMiddleware_falsy:
  "opt_maxAttempts opts = None \<or> opt_maxAttempts opts = Some 0 \<Longrightarrow>
   \<exists>mw. createInfuraMiddleware opts = Inr mw \<and> mw_maxAttempts mw = 5"
  by (auto simp: createInfuraMiddleware_def orNumber_def Let_def)

lemma createInfuraMiddleware_never_zero:
  "createInfuraMiddleware opts = Inr mw \<Longrightarrow> mw_maxAttempts mw \<noteq> 0"
  by (auto simp: createInfuraMiddleware_def orNumber_def Let_def split: option.splits if_splits)

lemma createInfuraMiddleware_keeps_maxAttempts:
  "opt_maxAttempts opts = Some n \<Longrightarrow> n \<noteq> 0 \<Longrightarrow>
   \<exists>mw. createInfuraMiddleware opts = Inr mw \<and> mw_maxAttempts mw = n"
  by (simp add: createInfuraMiddleware_def orNumber_def Let_def)

text \<open>
  C1. Constructing the middleware with \<open>maxAttempts = 0\<close> should raise a configuration
  error. The code replaces the falsy value by the default 5 before it tests it, so the
  construction succeeds with five attempts.
\<close>

theorem createInfuraMiddleware_zero_accepted:
  "createInfuraMiddleware \<lparr>opt_network = None, opt_maxAttempts = Some 0,
      opt_source = None, opt_dev = False\<rparr>
   = Inr \<lparr>mw_network = ''mainnet'', mw_maxAttempts = 5, mw_source = None, mw_dev = False\<rparr>"
  by (simp add: createInfuraMiddleware_def orNumber_def orString_def)

section \<open>Substring containment\<close>

lemma startsWith_prefix: "startsWith s p = prefix p s"
  by (induction s p rule: startsWith.induct) auto

lemma str_includes_sublist: "str_includes s p = sublist p s"
proof (induction s)
  case Nil
  then show ?case by simp
next
  case (Cons c cs)
  then show ?case by (simp add: startsWith_prefix sublist_Cons_right)
qed

lemma str_includes_middle: "str_includes (a @ p @ b) p"
  by (simp add: str_includes_sublist)

lemma canRetry_sublist:
  "canRetry pf e = (\<exists>phrase \<in> set RETRIABLE_ERRORS. sublist phrase (toString (rpcErrors pf) e))"
  by (simp add: canRetry_def retriableText_def list_ex_iff str_includes_sublist)

text \<open>A body that is not JSON is retried: the string form of the parse error names its class.\<close>

lemma syntaxError_retriable: "canRetry pf (Native ''SyntaxError'' m)"
proof -
  have "str_includes (''SyntaxError'' @ s) ''SyntaxError''" for s
    using str_includes_middle [of "[]" "''SyntaxError''" s] by simp
  then have "str_includes (toString (rpcErrors pf) (Native ''SyntaxError'' m)) ''SyntaxError''"
    using str_includes_middle [of "[]" "''SyntaxError''" "[]"] by (cases "m = []") simp_all
  then show ?thesis
    by (simp add: canRetry_def retriableText_def RETRIABLE_ERRORS_def)
qed

section \<open>Effects of one attempt\<close>

lemma performFetch_calls: "calls (snd (performFetch pf fc req w)) = calls w + 1"
  by (simp add: performFetch_def Let_def split: prod.splits sum.splits)

lemma performFetch_timers: "timers (snd (performFetch pf fc req w)) = timers w"
  by (simp add: performFetch_def Let_def split: prod.splits sum.splits)

lemma performFetch_transport_failure:
  "fetch pf (calls w) (fst (fc w req)) (snd (fc w req)) = Inl e \<Longrightarrow>
   performFetch pf fc req w = (Inl e, w\<lparr>calls := calls w + 1\<rparr>)"
  by (cases "fc w req") (simp add: performFetch_def)

section \<open>Steps of the retry driver\<close>

lemma retryLoop_skip:
  "maxAttempts < attempt \<Longrightarrow> retryLoop pf fc maxAttempts req attempt w = (Inr (), w)"
  by (subst retryLoop.simps) simp

lemma retryLoop_success:
  "attempt \<le> maxAttempts \<Longrightarrow> performFetch pf fc req w = (Inr u, w1) \<Longrightarrow>
   retryLoop pf fc maxAttempts req attempt w = (Inr (), w1)"
  by (subst retryLoop.simps) simp

lemma retryLoop_fatal:
  "attempt \<le> maxAttempts \<Longrightarrow> performFetch pf fc req w = (Inl e, w1) \<Longrightarrow> \<not> canRetry pf e \<Longrightarrow>
   retryLoop pf fc maxAttempts req attempt w = (Inl e, w1)"
  by (subst retryLoop.simps) simp

lemma retryLoop_exhausted:
  "attempt = maxAttempts \<Longrightarrow> performFetch pf fc req w = (Inl e, w1) \<Longrightarrow> canRetry pf e \<Longrightarrow>
   retryLoop pf fc maxAttempts req attempt w = (Inl (retriesExhaustedErr pf e), w1)"
  by (subst retryLoop.simps) simp

lemma retryLoop_again:
  "attempt < maxAttempts \<Longrightarrow> performFetch pf fc req w = (Inl e, w1) \<Longrightarrow> canRetry pf e \<Longrightarrow>
   retryLoop pf fc maxAttempts req attempt w = retryLoop pf fc maxAttempts req (attempt + 1) w1"
  by (subst retryLoop.simps) (simp add: await_value_def)

text \<open>No run of the retry driver hands a delay to \<open>setTimeout\<close>.\<close>

lemma retryLoop_timers: "timers (snd (retryLoop pf fc maxAttempts req attempt w)) = timers w"
proof (induction pf fc maxAttempts req attempt w rule: retryLoop.induct)
  case (1 pf fc maxAttempts req attempt w)
  obtain r w1 where pf1: "performFetch pf fc req w = (r, w1)"
    by (cases "performFetch pf fc req w")
  have t1: "timers w1 = timers w"
    using performFetch_timers [of pf fc req w] pf1 by simp
  show ?case
  proof (cases "attempt \<le> maxAttempts")
    case False
    then show ?thesis by (simp add: retryLoop_skip)
  next
    case le: True
    show ?thesis
    proof (cases r)
      case (Inr u)
      then show ?thesis using le pf1 t1 by (simp add: retryLoop_success)
    next
      case (Inl e)
      show ?thesis
      proof (cases "canRetry pf e")
        case False
        then show ?thesis using le pf1 t1 Inl by (simp add: retryLoop_fatal)
      next
        case retri: True
        show ?thesis
        proof (cases "attempt = maxAttempts")
          case True
          then show ?thesis using pf1 t1 Inl retri by (simp add: retryLoop_exhausted)
        next
          case False
          then have lt: "attempt < maxAttempts" using le by simp
          have "retryLoop pf fc maxAttempts req attempt w
                  = retryLoop pf fc maxAttempts req (attempt + 1) w1"
            using lt pf1 Inl retri by (simp add: retryLoop_again)
          moreover have "timers (snd (retryLoop pf fc maxAttempts req (attempt + 1)
                                  (await_value delayFunction w1)))
                         = timers (await_value delayFunction w1)"
            using "1.IH" le pf1 Inl retri False by simp
          ultimately show ?thesis using t1 by (simp add: await_value_def)
        qed
      qed
    qed
  qed
qed

text \<open>A transport that fails with a retriable error at every call uses up the attempts.\<close>

lemma retryLoop_all_fail:
  assumes fail: "\<forall>n url fp. fetch pf n url fp = Inl (e n)"
      and retri: "\<forall>n. canRetry pf (e n)"
  shows "nat (maxAttempts - attempt) = k \<Longrightarrow> attempt \<le> maxAttempts \<Longrightarrow>
     retryLoop pf fc maxAttempts req attempt w
       = (Inl (retriesExhaustedErr pf (e (calls w + k))), w\<lparr>calls := calls w + k + 1\<rparr>)"
proof (induction k arbitrary: attempt w)
  case 0
  then have eq: "attempt = maxAttempts" by simp
  have "performFetch pf fc req w = (Inl (e (calls w)), w\<lparr>calls := calls w + 1\<rparr>)"
    using fail by (simp add: performFetch_transport_failure)
  then show ?case using eq retri by (simp add: retryLoop_exhausted)
next
  case (Suc k)
  then have lt: "attempt < maxAttempts" by simp
  let ?w1 = "w\<lparr>calls := calls w + 1\<rparr>"
  have pf1: "performFetch pf fc req w = (Inl (e (calls w)), ?w1)"
    using fail by (simp add: performFetch_transport_failure)
  have "retryLoop pf fc maxAttempts req attempt w
          = retryLoop pf fc maxAttempts req (attempt + 1) ?w1"
    using lt pf1 retri by (simp add: retryLoop_again)
  also have "\<dots> = (Inl (retriesExhaustedErr pf (e (calls ?w1 + k))), ?w1\<lparr>calls := calls ?w1 + k + 1\<rparr>)"
    using Suc.IH [of "attempt + 1" ?w1] Suc.prems by simp
  finally show ?case by simp
qed

section \<open>Filling the credentials\<close>

lemma ensureCredentials_keeps:
  "ensureCredentials pf w = Some w2 \<Longrightarrow>
   calls w2 = calls w \<and> res w2 = res w \<and> parses w2 = parses w \<and> timers w2 = timers w"
  by (auto simp: ensureCredentials_def setProjectId_def setBraveKey_def
           split: if_splits option.splits callback.splits)

lemma ensureCredentials_returns:
  "getProjectID pf \<noteq> Never \<Longrightarrow> getBraveKey pf \<noteq> Some Never \<Longrightarrow>
   \<exists>w2. ensureCredentials pf w = Some w2"
  by (auto simp: ensureCredentials_def setProjectId_def setBraveKey_def
           split: if_splits option.splits callback.splits)

section \<open>The handlers\<close>

lemma performFetch_parsed:
  assumes "fetch pf (calls w) (fst (fc w req)) (snd (fc w req)) = Inr r"
      and "ok r"
      and "\<not> (req_method req = ''eth_getBlockByNumber'' \<and> resp_text r = ''Not Found'')"
      and "JSON_parse pf (resp_text r) = Inr data"
      and "data \<noteq> JNull"
  shows "performFetch pf fc req w
           = (Inr (), w\<lparr>calls := calls w + 1, parses := parses w + 1,
                         res := \<lparr>res_result = getProp data ''result'',
                                  res_error = getProp data ''error''\<rparr>\<rparr>)"
  using assms by (cases "fc w req") (auto simp: performFetch_def Let_def)

lemma retryLoop_third:
  assumes "canRetry pf e1" and "canRetry pf e2"
      and "performFetch pf fc req w = (Inl e1, w1)"
      and "performFetch pf fc req w1 = (Inl e2, w2)"
      and "performFetch pf fc req w2 = (Inr (), w3)"
  shows "retryLoop pf fc 3 req 1 w = (Inr (), w3)"
proof -
  have "retryLoop pf fc 3 req 1 w = retryLoop pf fc 3 req 2 w1"
    using assms retryLoop_again [of 1 3 pf fc req w e1 w1] by simp
  also have "\<dots> = retryLoop pf fc 3 req 3 w2"
    using assms retryLoop_again [of 2 3 pf fc req w1 e2 w2] by simp
  also have "\<dots> = (Inr (), w3)"
    using assms by (simp add: retryLoop_success)
  finally show ?thesis .
qed

lemma third_attempt_world:
  assumes "canRetry pf e1" and "canRetry pf e2"
      and "ok r"
      and "\<not> (req_method req = ''eth_getBlockByNumber'' \<and> resp_text r = ''Not Found'')"
      and "JSON_parse pf (resp_text r) = Inr data"
      and "data \<noteq> JNull"
      and "performFetch pf fc req w = (Inl e1, w1)"
      and "performFetch pf fc req w1 = (Inl e2, w2)"
      and "fetch pf (calls w2) (fst (fc w2 req)) (snd (fc w2 req)) = Inr r"
  shows "retryLoop pf fc 3 req 1 w
           = (Inr (), w2\<lparr>calls := calls w + 3, parses := parses w2 + 1,
                          res := \<lparr>res_result = getProp data ''result'',
                                   res_error = getProp data ''error''\<rparr>\<rparr>)"
proof -
  have c1: "calls w1 = calls w + 1"
    using performFetch_calls [of pf fc req w] assms by simp
  have c2: "calls w2 = calls w + 2"
    using performFetch_calls [of pf fc req w1] assms c1 by simp
  have "performFetch pf fc req w2
          = (Inr (), w2\<lparr>calls := calls w2 + 1, parses := parses w2 + 1,
                        res := \<lparr>res_result = getProp data ''result'',
                                 res_error = getProp data ''error''\<rparr>\<rparr>)"
    using assms by (intro performFetch_parsed) simp_all
  then show ?thesis
    using assms c2 retryLoop_third [of pf e1 e2 fc req w w1 w2] by simp
qed

text \<open>
  C9. With \<open>maxAttempts = 3\<close>, when the first two attempts fail with retriable errors and
  the transport answers the third call with a success status and a JSON body, the
  handler returns normally, the response envelope holds the \<open>result\<close> and \<open>error\<close> of
  that body, and \<open>fetch\<close> has been called exactly three times. This holds for the
  handler of each source file.
\<close>

theorem succeeds_on_third_attempt:
  assumes "mw_maxAttempts mw = 3"
      and "canRetry pf e1" and "canRetry pf e2"
      and "ok r"
      and "\<not> (req_method req = ''eth_getBlockByNumber'' \<and> resp_text r = ''Not Found'')"
      and "JSON_parse pf (resp_text r) = Inr data"
      and "data \<noteq> JNull"
  shows "(performFetch pf (fetchConfig pf mw) req w = (Inl e1, w1)
            \<and> performFetch pf (fetchConfig pf mw) req w1 = (Inl e2, w2)
            \<and> fetch pf (calls w2) (fst (fetchConfig pf mw w2 req))
                 (snd (fetchConfig pf mw w2 req)) = Inr r
          \<longrightarrow> infuraMiddleware pf mw req w
                = (Inr (), w2\<lparr>calls := calls w + 3, parses := parses w2 + 1,
                               res := \<lparr>res_result = getProp data ''result'',
                                        res_error = getProp data ''error''\<rparr>\<rparr>))
       \<and> (ensureCredentials pf w = Some w0
            \<and> performFetch pf (fetchConfig_brave pf mw) req w0 = (Inl e1, w1)
            \<and> performFetch pf (fetchConfig_brave pf mw) req w1 = (Inl e2, w2)
            \<and> fetch pf (calls w2) (fst (fetchConfig_brave pf mw w2 req))
                 (snd (fetchConfig_brave pf mw w2 req)) = Inr r
          \<longrightarrow> infuraMiddleware_brave pf mw req w
                = Some (Inr (), w2\<lparr>calls := calls w + 3, parses := parses w2 + 1,
                                    res := \<lparr>res_result = getProp data ''result'',
                                             res_error = getProp data ''error''\<rparr>\<rparr>))"
proof (intro conjI impI)
  assume "performFetch pf (fetchConfig pf mw) req w = (Inl e1, w1)
            \<and> performFetch pf (fetchConfig pf mw) req w1 = (Inl e2, w2)
            \<and> fetch pf (calls w2) (fst (fetchConfig pf mw w2 req))
                 (snd (fetchConfig pf mw w2 req)) = Inr r"
  then show "infuraMiddleware pf mw req w
                = (Inr (), w2\<lparr>calls := calls w + 3, parses := parses w2 + 1,
                               res := \<lparr>res_result = getProp data ''result'',
                                        res_error = getProp data ''error''\<rparr>\<rparr>)"
    using assms third_attempt_world [of pf e1 e2 r req data "fetchConfig pf mw" w w1 w2]
    by (simp add: infuraMiddleware_def)
next
  assume a: "ensureCredentials pf w = Some w0
            \<and> performFetch pf (fetchConfig_brave pf mw) req w0 = (Inl e1, w1)
            \<and> performFetch pf (fetchConfig_brave pf mw) req w1 = (Inl e2, w2)
            \<and> fetch pf (calls w2) (fst (fetchConfig_brave pf mw w2 req))
                 (snd (fetchConfig_brave pf mw w2 req)) = Inr r"
  then have "calls w0 = calls w" using ensureCredentials_keeps [of pf w w0] by simp
  then show "infuraMiddleware_brave pf mw req w
                = Some (Inr (), w2\<lparr>calls := calls w + 3, parses := parses w2 + 1,
                                    res := \<lparr>res_result = getProp data ''result'',
                                             res_error = getProp data ''error''\<rparr>\<rparr>)"
    using a assms third_attempt_world [of pf e1 e2 r req data "fetchConfig_brave pf mw" w0 w1 w2]
    by (simp add: infuraMiddleware_brave_def)
qed

lemma canRetry_timeoutError: "canRetry (sample_platform known transport) timeoutError"
  by (simp add: canRetry_def retriableText_def RETRIABLE_ERRORS_def timeoutError_def)

lemma flaky_fails:
  "n < 2 \<Longrightarrow> calls w = n \<Longrightarrow>
   performFetch flakyPlatform fc sample_request w = (Inl timeoutError, w\<lparr>calls := n + 1\<rparr>)"
  using performFetch_transport_failure [of flakyPlatform w fc sample_request timeoutError]
  by (simp add: flakyPlatform_def sample_platform_def flakyTransport_def)

lemma flaky_parse:
  "JSON_parse flakyPlatform (sample_stringify sample_reply) = Inr sample_reply"
  by (simp add: flakyPlatform_def sample_platform_def sample_parse_def)

theorem succeeds_on_third_attempt_witness:
  "mw_maxAttempts (sample_middleware 3) = 3
   \<and> canRetry flakyPlatform timeoutError
   \<and> ok \<lparr>resp_status = 200, resp_text = sample_stringify sample_reply\<rparr>
   \<and> JSON_parse flakyPlatform (sample_stringify sample_reply) = Inr sample_reply
   \<and> performFetch flakyPlatform (fetchConfig flakyPlatform (sample_middleware 3))
        sample_request world0 = (Inl timeoutError, world0\<lparr>calls := 1\<rparr>)
   \<and> performFetch flakyPlatform (fetchConfig flakyPlatform (sample_middleware 3))
        sample_request (world0\<lparr>calls := 1\<rparr>) = (Inl timeoutError, world0\<lparr>calls := 2\<rparr>)
   \<and> infuraMiddleware flakyPlatform (sample_middleware 3) sample_request world0
        = (Inr (), world0\<lparr>calls := 3, parses := 1,
                           res := \<lparr>res_result = Some (JStr ''0x10''), res_error = None\<rparr>\<rparr>)
   \<and> ensureCredentials flakyPlatform world0
        = Some (world0\<lparr>BRAVE_INFURA_PROJECT_ID := ''0123456789abcdef''\<rparr>)
   \<and> infuraMiddleware_brave flakyPlatform (sample_middleware 3) sample_request world0
        = Some (Inr (), world0\<lparr>calls := 3, parses := 1,
                           res := \<lparr>res_result = Some (JStr ''0x10''), res_error = None\<rparr>,
                           BRAVE_INFURA_PROJECT_ID := ''0123456789abcdef''\<rparr>)"
proof -
  let ?pf = flakyPlatform and ?mw = "sample_middleware 3"
  let ?r = "\<lparr>resp_status = 200, resp_text = sample_stringify sample_reply\<rparr>"
  let ?wb = "world0\<lparr>BRAVE_INFURA_PROJECT_ID := ''0123456789abcdef''\<rparr>"
  have h1: "mw_maxAttempts ?mw = 3" by (simp add: sample_middleware_def)
  have h2: "canRetry ?pf timeoutError"
    by (simp add: flakyPlatform_def canRetry_timeoutError)
  have h3: "ok ?r" by (simp add: ok_def)
  have h4: "\<not> (req_method sample_request = ''eth_getBlockByNumber'' \<and> resp_text ?r = ''Not Found'')"
    by (simp add: sample_reply_def)
  have h5: "JSON_parse ?pf (resp_text ?r) = Inr sample_reply" by (simp add: flaky_parse)
  have h6: "sample_reply \<noteq> JNull" by (simp add: sample_reply_def)
  have a1: "performFetch ?pf (fetchConfig ?pf ?mw) sample_request world0
              = (Inl timeoutError, world0\<lparr>calls := 1\<rparr>)"
    using flaky_fails [of 0 world0] by (simp add: world0_def)
  have a2: "performFetch ?pf (fetchConfig ?pf ?mw) sample_request (world0\<lparr>calls := 1\<rparr>)
              = (Inl timeoutError, world0\<lparr>calls := 2\<rparr>)"
    using flaky_fails [of 1 "world0\<lparr>calls := 1\<rparr>"] by (simp add: world0_def)
  have a3: "fetch ?pf (calls (world0\<lparr>calls := 2\<rparr>)) u p = Inr ?r" for u p
    by (simp add: flakyPlatform_def sample_platform_def flakyTransport_def)
  have b0: "ensureCredentials ?pf world0 = Some ?wb"
    by (simp add: ensureCredentials_def setProjectId_def setBraveKey_def world0_def
          flakyPlatform_def sample_platform_def)
  have b1: "performFetch ?pf (fetchConfig_brave ?pf ?mw) sample_request ?wb
              = (Inl timeoutError, ?wb\<lparr>calls := 1\<rparr>)"
    using flaky_fails [of 0 ?wb] by (simp add: world0_def)
  have b2: "performFetch ?pf (fetchConfig_brave ?pf ?mw) sample_request (?wb\<lparr>calls := 1\<rparr>)
              = (Inl timeoutError, ?wb\<lparr>calls := 2\<rparr>)"
    using flaky_fails [of 1 "?wb\<lparr>calls := 1\<rparr>"] by (simp add: world0_def)
  have b3: "fetch ?pf (calls (?wb\<lparr>calls := 2\<rparr>)) u p = Inr ?r" for u p
    by (simp add: flakyPlatform_def sample_platform_def flakyTransport_def)
  note main = succeeds_on_third_attempt [OF h1 h2 h2 h3 h4 h5 h6]
  have r1: "infuraMiddleware ?pf ?mw sample_request world0
        = (Inr (), world0\<lparr>calls := 3, parses := 1,
                           res := \<lparr>res_result = Some (JStr ''0x10''), res_error = None\<rparr>\<rparr>)"
    using main [of world0 "world0\<lparr>calls := 1\<rparr>" "world0\<lparr>calls := 2\<rparr>"] a1 a2 a3
    by (simp add: world0_def sample_reply_def)
  have r2: "infuraMiddleware_brave ?pf ?mw sample_request world0
        = Some (Inr (), world0\<lparr>calls := 3, parses := 1,
                           res := \<lparr>res_result = Some (JStr ''0x10''), res_error = None\<rparr>,
                           BRAVE_INFURA_PROJECT_ID := ''0123456789abcdef''\<rparr>)"
    using main [of world0 "?wb\<lparr>calls := 1\<rparr>" "?wb\<lparr>calls := 2\<rparr>" ?wb] b0 b1 b2 b3
    by (simp add: world0_def sample_reply_def)
  show ?thesis using h1 h2 h3 h5 a1 a2 r1 b0 r2 by simp
qed

lemma exhausted_message:
  "\<exists>rest. retriesExhaustedErr pf err = Native ''Error'' (''InfuraProvider'' @ rest)
        \<and> str_includes rest (toString (rpcErrors pf) err)"
proof -
  let ?a = "'' - cannot complete request, all retries have been exhausted.''
              @ [CHR 0x0A] @ ''Original Error:'' @ [CHR 0x0A]"
  let ?rest = "?a @ toString (rpcErrors pf) err @ [CHR 0x0A, CHR 0x0A]"
  have "retriesExhaustedErr pf err = Native ''Error'' (''InfuraProvider'' @ ?rest)"
    by (simp add: retriesExhaustedErr_def)
  moreover have "str_includes ?rest (toString (rpcErrors pf) err)"
    by (rule str_includes_middle)
  ultimately show ?thesis by blast
qed

lemma handler_all_fail:
  assumes "1 \<le> maxAttempts"
      and "\<forall>n url fp. fetch pf n url fp = Inl (e n)"
      and "\<forall>n. canRetry pf (e n)"
  shows "retryLoop pf fc maxAttempts req 1 w
           = (Inl (retriesExhaustedErr pf (e (calls w + nat maxAttempts - 1))),
              w\<lparr>calls := calls w + nat maxAttempts\<rparr>)"
proof -
  have k: "nat (maxAttempts - 1) + 1 = nat maxAttempts" using assms(1) by simp
  have "retryLoop pf fc maxAttempts req 1 w
          = (Inl (retriesExhaustedErr pf (e (calls w + nat (maxAttempts - 1)))),
             w\<lparr>calls := calls w + nat (maxAttempts - 1) + 1\<rparr>)"
    using assms by (intro retryLoop_all_fail) simp_all
  moreover have "calls w + nat (maxAttempts - 1) = calls w + nat maxAttempts - 1"
    using k by simp
  moreover have "calls w + nat (maxAttempts - 1) + 1 = calls w + nat maxAttempts"
    using k by simp
  ultimately show ?thesis by simp
qed

text \<open>
  C6. For \<open>maxAttempts \<ge> 1\<close> and a transport that fails at every call with an error whose
  string form contains a retriable phrase, the handler of each source file calls
  \<open>fetch\<close> exactly \<open>maxAttempts\<close> times and then raises a new \<open>Error\<close>; its message starts
  with the component's name \<open>InfuraProvider\<close> and contains the string form of the error of
  the last attempt.
\<close>

theorem retries_exhausted_after_maxAttempts:
  assumes "1 \<le> mw_maxAttempts mw"
      and "\<forall>n url fp. fetch pf n url fp = Inl (e n)"
      and "\<forall>n. canRetry pf (e n)"
  shows "infuraMiddleware pf mw req w
           = (Inl (retriesExhaustedErr pf (e (calls w + nat (mw_maxAttempts mw) - 1))),
              w\<lparr>calls := calls w + nat (mw_maxAttempts mw)\<rparr>)
       \<and> (ensureCredentials pf w = Some w0 \<longrightarrow>
            infuraMiddleware_brave pf mw req w
              = Some (Inl (retriesExhaustedErr pf (e (calls w + nat (mw_maxAttempts mw) - 1))),
                      w0\<lparr>calls := calls w + nat (mw_maxAttempts mw)\<rparr>))
       \<and> (\<exists>rest. retriesExhaustedErr pf err = Native ''Error'' (''InfuraProvider'' @ rest)
                \<and> str_includes rest (toString (rpcErrors pf) err))"
proof (intro conjI impI)
  show "infuraMiddleware pf mw req w
           = (Inl (retriesExhaustedErr pf (e (calls w + nat (mw_maxAttempts mw) - 1))),
              w\<lparr>calls := calls w + nat (mw_maxAttempts mw)\<rparr>)"
    using handler_all_fail [OF assms, of "fetchConfig pf mw" req w]
    by (simp add: infuraMiddleware_def)
next
  assume a: "ensureCredentials pf w = Some w0"
  then have "calls w0 = calls w" using ensureCredentials_keeps [of pf w w0] by simp
  then show "infuraMiddleware_brave pf mw req w
              = Some (Inl (retriesExhaustedErr pf (e (calls w + nat (mw_maxAttempts mw) - 1))),
                      w0\<lparr>calls := calls w + nat (mw_maxAttempts mw)\<rparr>)"
    using a handler_all_fail [OF assms, of "fetchConfig_brave pf mw" req w0]
    by (simp add: infuraMiddleware_brave_def)
next
  show "\<exists>rest. retriesExhaustedErr pf err = Native ''Error'' (''InfuraProvider'' @ rest)
                \<and> str_includes rest (toString (rpcErrors pf) err)"
    by (rule exhausted_message)
qed

theorem retries_exhausted_after_maxAttempts_witness:
  "1 \<le> mw_maxAttempts (sample_middleware 2)
   \<and> (\<forall>n url fp. fetch timeoutPlatform n url fp = Inl timeoutError)
   \<and> canRetry timeoutPlatform timeoutError
   \<and> infuraMiddleware timeoutPlatform (sample_middleware 2) sample_request world0
       = (Inl (Native ''Error''
                (''InfuraProvider - cannot complete request, all retries have been exhausted.''
                 @ [CHR 0x0A] @ ''Original Error:'' @ [CHR 0x0A]
                 @ ''Error: connect ETIMEDOUT 10.0.0.1:443'' @ [CHR 0x0A, CHR 0x0A])),
          world0\<lparr>calls := 2\<rparr>)
   \<and> ensureCredentials timeoutPlatform world0
        = Some (world0\<lparr>BRAVE_INFURA_PROJECT_ID := ''0123456789abcdef''\<rparr>)
   \<and> infuraMiddleware_brave timeoutPlatform (sample_middleware 2) sample_request world0
       = Some (Inl (Native ''Error''
                (''InfuraProvider - cannot complete request, all retries have been exhausted.''
                 @ [CHR 0x0A] @ ''Original Error:'' @ [CHR 0x0A]
                 @ ''Error: connect ETIMEDOUT 10.0.0.1:443'' @ [CHR 0x0A, CHR 0x0A])),
          world0\<lparr>calls := 2, BRAVE_INFURA_PROJECT_ID := ''0123456789abcdef''\<rparr>)"
proof -
  let ?wb = "world0\<lparr>BRAVE_INFURA_PROJECT_ID := ''0123456789abcdef''\<rparr>"
  have h1: "1 \<le> mw_maxAttempts (sample_middleware 2)" by (simp add: sample_middleware_def)
  have h2: "\<forall>n url fp. fetch timeoutPlatform n url fp = Inl ((\<lambda>n. timeoutError) n)"
    by (simp add: timeoutPlatform_def sample_platform_def alwaysTimeout_def)
  have h3: "\<forall>n. canRetry timeoutPlatform ((\<lambda>n. timeoutError) n)"
    by (simp add: timeoutPlatform_def canRetry_timeoutError)
  have b0: "ensureCredentials timeoutPlatform world0 = Some ?wb"
    by (simp add: ensureCredentials_def setProjectId_def setBraveKey_def world0_def
          timeoutPlatform_def sample_platform_def)
  have msg: "retriesExhaustedErr timeoutPlatform timeoutError
      = Native ''Error''
                (''InfuraProvider - cannot complete request, all retries have been exhausted.''
                 @ [CHR 0x0A] @ ''Original Error:'' @ [CHR 0x0A]
                 @ ''Error: connect ETIMEDOUT 10.0.0.1:443'' @ [CHR 0x0A, CHR 0x0A])"
    by (simp add: retriesExhaustedErr_def timeoutError_def timeoutPlatform_def
          sample_platform_def sample_errlib_def)
  note main = retries_exhausted_after_maxAttempts [OF h1 h2 h3, of sample_request world0 ?wb]
  have r1: "infuraMiddleware timeoutPlatform (sample_middleware 2) sample_request world0
       = (Inl (retriesExhaustedErr timeoutPlatform timeoutError), world0\<lparr>calls := 2\<rparr>)"
    using main by (simp add: sample_middleware_def world0_def)
  have r2: "infuraMiddleware_brave timeoutPlatform (sample_middleware 2) sample_request world0
       = Some (Inl (retriesExhaustedErr timeoutPlatform timeoutError),
               world0\<lparr>calls := 2, BRAVE_INFURA_PROJECT_ID := ''0123456789abcdef''\<rparr>)"
    using main b0 by (simp add: sample_middleware_def world0_def)
  show ?thesis using h1 h2 h3 b0 r1 r2 unfolding msg by simp
qed

text \<open>Below one attempt the loop body never runs: nothing is fetched and nothing is raised.\<close>

lemma no_attempt_below_one:
  "mw_maxAttempts mw < 1 \<Longrightarrow> infuraMiddleware pf mw req w = (Inr (), w)"
  by (simp add: infuraMiddleware_def retryLoop_skip)

text \<open>
  C7. When \<open>maxAttempts \<ge> 1\<close> and the first attempt fails with an error whose string form
  contains none of the four retriable phrases, the handler of each source file raises
  that same error, and \<open>fetch\<close> has been called exactly once.
\<close>

theorem fatal_error_propagates_unchanged:
  assumes "1 \<le> mw_maxAttempts mw"
      and "\<forall>phrase \<in> set [''Gateway timeout'', ''ETIMEDOUT'', ''ECONNRESET'', ''SyntaxError''].
             \<not> sublist phrase (toString (rpcErrors pf) e)"
  shows "(performFetch pf (fetchConfig pf mw) req w = (Inl e, w1)
            \<longrightarrow> infuraMiddleware pf mw req w = (Inl e, w1) \<and> calls w1 = calls w + 1)
       \<and> (ensureCredentials pf w = Some w0
            \<and> performFetch pf (fetchConfig_brave pf mw) req w0 = (Inl e, w1)
            \<longrightarrow> infuraMiddleware_brave pf mw req w = Some (Inl e, w1) \<and> calls w1 = calls w + 1)"
proof -
  have fatal: "\<not> canRetry pf e"
    using assms(2) by (simp add: canRetry_sublist RETRIABLE_ERRORS_def)
  show ?thesis
  proof (intro conjI impI)
    assume a: "performFetch pf (fetchConfig pf mw) req w = (Inl e, w1)"
    then show "infuraMiddleware pf mw req w = (Inl e, w1)"
      using assms(1) fatal by (simp add: infuraMiddleware_def retryLoop_fatal)
    show "calls w1 = calls w + 1"
      using a performFetch_calls [of pf "fetchConfig pf mw" req w] by simp
  next
    assume a: "ensureCredentials pf w = Some w0
                 \<and> performFetch pf (fetchConfig_brave pf mw) req w0 = (Inl e, w1)"
    then show "infuraMiddleware_brave pf mw req w = Some (Inl e, w1)"
      using assms(1) fatal by (simp add: infuraMiddleware_brave_def retryLoop_fatal)
    show "calls w1 = calls w + 1"
      using a performFetch_calls [of pf "fetchConfig_brave pf mw" req w0]
        ensureCredentials_keeps [of pf w w0] by simp
  qed
qed

theorem fatal_error_propagates_unchanged_witness:
  "1 \<le> mw_maxAttempts (sample_middleware 5)
   \<and> toString (rpcErrors deniedPlatform) deniedError = ''Error: permission denied''
   \<and> performFetch deniedPlatform (fetchConfig deniedPlatform (sample_middleware 5))
        sample_request world0 = (Inl deniedError, world0\<lparr>calls := 1\<rparr>)
   \<and> infuraMiddleware deniedPlatform (sample_middleware 5) sample_request world0
        = (Inl deniedError, world0\<lparr>calls := 1\<rparr>)
   \<and> ensureCredentials deniedPlatform world0
        = Some (world0\<lparr>BRAVE_INFURA_PROJECT_ID := ''0123456789abcdef''\<rparr>)
   \<and> infuraMiddleware_brave deniedPlatform (sample_middleware 5) sample_request world0
        = Some (Inl deniedError,
                world0\<lparr>calls := 1, BRAVE_INFURA_PROJECT_ID := ''0123456789abcdef''\<rparr>)"
proof -
  let ?pf = deniedPlatform and ?mw = "sample_middleware 5"
  let ?wb = "world0\<lparr>BRAVE_INFURA_PROJECT_ID := ''0123456789abcdef''\<rparr>"
  have h1: "1 \<le> mw_maxAttempts ?mw" by (simp add: sample_middleware_def)
  have s: "toString (rpcErrors ?pf) deniedError = ''Error: permission denied''"
    by (simp add: deniedError_def)
  have h2: "\<forall>phrase \<in> set [''Gateway timeout'', ''ETIMEDOUT'', ''ECONNRESET'', ''SyntaxError''].
             \<not> sublist phrase (toString (rpcErrors ?pf) deniedError)"
    unfolding s by (simp add: str_includes_sublist [symmetric])
  have f: "fetch ?pf n u p = Inl deniedError" for n u p
    by (simp add: deniedPlatform_def sample_platform_def alwaysDenied_def)
  have a1: "performFetch ?pf (fetchConfig ?pf ?mw) sample_request world0
              = (Inl deniedError, world0\<lparr>calls := 1\<rparr>)"
    using performFetch_transport_failure [of ?pf world0 "fetchConfig ?pf ?mw" sample_request] f
    by (simp add: world0_def)
  have b0: "ensureCredentials ?pf world0 = Some ?wb"
    by (simp add: ensureCredentials_def setProjectId_def setBraveKey_def world0_def
          deniedPlatform_def sample_platform_def)
  have b1: "performFetch ?pf (fetchConfig_brave ?pf ?mw) sample_request ?wb
              = (Inl deniedError, ?wb\<lparr>calls := 1\<rparr>)"
    using performFetch_transport_failure [of ?pf ?wb "fetchConfig_brave ?pf ?mw" sample_request] f
    by (simp add: world0_def)
  note main = fatal_error_propagates_unchanged [OF h1 h2]
  have r1: "infuraMiddleware ?pf ?mw sample_request world0 = (Inl deniedError, world0\<lparr>calls := 1\<rparr>)"
    using main [of sample_request world0 "world0\<lparr>calls := 1\<rparr>"] a1 by simp
  have r2: "infuraMiddleware_brave ?pf ?mw sample_request world0
              = Some (Inl deniedError, ?wb\<lparr>calls := 1\<rparr>)"
    using main [of sample_request world0 "?wb\<lparr>calls := 1\<rparr>" ?wb] b0 b1 by simp
  show ?thesis using h1 s a1 r1 b0 r2 by (simp add: world0_def)
qed

text \<open>
  The constructor lets a negative \<open>maxAttempts\<close> through, and the loop then never runs its
  body. With \<open>maxAttempts = -1\<close> on a transport whose every call is refused with an error
  that is not retriable, the handler of each source file does not call \<open>fetch\<close> at all
  and returns normally: the refusal is never met, let alone raised.
\<close>

theorem fatal_error_propagates_unchanged_counterexample:
  "createInfuraMiddleware \<lparr>opt_network = None, opt_maxAttempts = Some (- 1),
       opt_source = Some ''metamask'', opt_dev = False\<rparr>
     = Inr (sample_middleware (- 1))
   \<and> performFetch deniedPlatform (fetchConfig deniedPlatform (sample_middleware (- 1)))
        sample_request world0 = (Inl deniedError, world0\<lparr>calls := 1\<rparr>)
   \<and> \<not> canRetry deniedPlatform deniedError
   \<and> infuraMiddleware deniedPlatform (sample_middleware (- 1)) sample_request world0
       = (Inr (), world0)
   \<and> infuraMiddleware deniedPlatform (sample_middleware (- 1)) sample_request world0
       \<noteq> (Inl deniedError, world0\<lparr>calls := 1\<rparr>)
   \<and> infuraMiddleware_brave deniedPlatform (sample_middleware (- 1)) sample_request world0
       = Some (Inr (), world0\<lparr>BRAVE_INFURA_PROJECT_ID := ''0123456789abcdef''\<rparr>)
   \<and> calls world0 = 0"
proof -
  let ?pf = deniedPlatform and ?mw = "sample_middleware (- 1)"
  let ?wb = "world0\<lparr>BRAVE_INFURA_PROJECT_ID := ''0123456789abcdef''\<rparr>"
  have c: "createInfuraMiddleware \<lparr>opt_network = None, opt_maxAttempts = Some (- 1),
       opt_source = Some ''metamask'', opt_dev = False\<rparr> = Inr ?mw"
    by (simp add: createInfuraMiddleware_def orNumber_def orString_def sample_middleware_def)
  have f: "fetch ?pf n u p = Inl deniedError" for n u p
    by (simp add: deniedPlatform_def sample_platform_def alwaysDenied_def)
  have a1: "performFetch ?pf (fetchConfig ?pf ?mw) sample_request world0
              = (Inl deniedError, world0\<lparr>calls := 1\<rparr>)"
    using performFetch_transport_failure [of ?pf world0 "fetchConfig ?pf ?mw" sample_request] f
    by (simp add: world0_def)
  have nr: "\<not> canRetry ?pf deniedError"
    by (simp add: canRetry_def retriableText_def RETRIABLE_ERRORS_def deniedError_def)
  have lt: "mw_maxAttempts ?mw < 1" by (simp add: sample_middleware_def)
  have r1: "infuraMiddleware ?pf ?mw sample_request world0 = (Inr (), world0)"
    using lt by (rule no_attempt_below_one)
  have b0: "ensureCredentials ?pf world0 = Some ?wb"
    by (simp add: ensureCredentials_def setProjectId_def setBraveKey_def world0_def
          deniedPlatform_def sample_platform_def)
  have r2: "infuraMiddleware_brave ?pf ?mw sample_request world0 = Some (Inr (), ?wb)"
    using lt b0 by (simp add: infuraMiddleware_brave_def retryLoop_skip)
  have z: "calls world0 = 0" by (simp add: world0_def)
  show ?thesis using c a1 nr r1 r2 z by simp
qed

lemma infuraMiddleware_timers: "timers (snd (infuraMiddleware pf mw req w)) = timers w"
  by (simp add: infuraMiddleware_def retryLoop_timers)

lemma infuraMiddleware_brave_timers:
  assumes "infuraMiddleware_brave pf mw req w = Some (r, w')"
  shows "timers w' = timers w"
proof -
  obtain w2 where c: "ensureCredentials pf w = Some w2"
    and run: "retryLoop pf (fetchConfig_brave pf mw) (mw_maxAttempts mw) req 1 w2 = (r, w')"
    using assms by (auto simp: infuraMiddleware_brave_def split: option.splits)
  have "timers w' = timers w2"
    using retryLoop_timers [of pf "fetchConfig_brave pf mw" "mw_maxAttempts mw" req 1 w2] run
    by simp
  then show ?thesis using ensureCredentials_keeps [OF c] by simp
qed

text \<open>
  C2. Between two attempts the retry driver should wait 1000 ms. At \<open>maxAttempts = 2\<close> on a
  transport that always times out, the handler of each source file makes both attempts
  and never hands a delay to \<open>setTimeout\<close>: the function that would do so is awaited as a
  value and never called.
\<close>

theorem no_delay_between_attempts:
  "infuraMiddleware timeoutPlatform (sample_middleware 2) sample_request world0
     = (Inl (retriesExhaustedErr timeoutPlatform timeoutError), world0\<lparr>calls := 2\<rparr>)
   \<and> infuraMiddleware_brave timeoutPlatform (sample_middleware 2) sample_request world0
     = Some (Inl (retriesExhaustedErr timeoutPlatform timeoutError),
             world0\<lparr>calls := 2, BRAVE_INFURA_PROJECT_ID := ''0123456789abcdef''\<rparr>)
   \<and> timers (world0\<lparr>calls := 2\<rparr>) = []
   \<and> timers (delayFunction world0) = [1000]"
proof -
  let ?wb = "world0\<lparr>BRAVE_INFURA_PROJECT_ID := ''0123456789abcdef''\<rparr>"
  have h2: "\<forall>n url fp. fetch timeoutPlatform n url fp = Inl ((\<lambda>n. timeoutError) n)"
    by (simp add: timeoutPlatform_def sample_platform_def alwaysTimeout_def)
  have h3: "\<forall>n. canRetry timeoutPlatform ((\<lambda>n. timeoutError) n)"
    by (simp add: timeoutPlatform_def canRetry_timeoutError)
  have b0: "ensureCredentials timeoutPlatform world0 = Some ?wb"
    by (simp add: ensureCredentials_def setProjectId_def setBraveKey_def world0_def
          timeoutPlatform_def sample_platform_def)
  have r1: "infuraMiddleware timeoutPlatform (sample_middleware 2) sample_request world0
     = (Inl (retriesExhaustedErr timeoutPlatform timeoutError), world0\<lparr>calls := 2\<rparr>)"
    using handler_all_fail [OF _ h2 h3, of 2 "fetchConfig timeoutPlatform (sample_middleware 2)"
        sample_request world0]
    by (simp add: infuraMiddleware_def sample_middleware_def world0_def)
  have r2: "infuraMiddleware_brave timeoutPlatform (sample_middleware 2) sample_request world0
     = Some (Inl (retriesExhaustedErr timeoutPlatform timeoutError),
             world0\<lparr>calls := 2, BRAVE_INFURA_PROJECT_ID := ''0123456789abcdef''\<rparr>)"
    using handler_all_fail [OF _ h2 h3, of 2 "fetchConfig_brave timeoutPlatform (sample_middleware 2)"
        sample_request ?wb] b0
    by (simp add: infuraMiddleware_brave_def sample_middleware_def world0_def)
  show ?thesis using r1 r2 by (simp add: world0_def delayFunction_def)
qed

section \<open>The outcome of one attempt\<close>

lemma performFetch_response:
  assumes "fetch pf (calls w) (fst (fc w req)) (snd (fc w req)) = Inr r"
  shows "performFetch pf fc req w =
     (let w1 = w\<lparr>calls := calls w + 1\<rparr>; rawData = resp_text r
      in if \<not> ok r then
           (if resp_status r = 405 then (Inl MethodNotFound, w1)
            else if resp_status r = 418 then
              (Inl (InternalError ''Request is being rate limited.''), w1)
            else if resp_status r = 503 \<or> resp_status r = 504 then
              (Inl (InternalError ''Gateway timeout, request took too long to process.''), w1)
            else (Inl (InternalError rawData), w1))
         else if req_method req = ''eth_getBlockByNumber'' \<and> rawData = ''Not Found''
         then (Inr (), w1\<lparr>res := (res w)\<lparr>res_result := Some JNull\<rparr>\<rparr>)
         else (case JSON_parse pf rawData of
                 Inl m \<Rightarrow> (Inl (Native ''SyntaxError'' m), w1\<lparr>parses := parses w + 1\<rparr>)
               | Inr data \<Rightarrow>
                   if data = JNull then (Inl nullPropertyError, w1\<lparr>parses := parses w + 1\<rparr>)
                   else (Inr (), w1\<lparr>parses := parses w + 1,
                                     res := \<lparr>res_result = getProp data ''result'',
                                              res_error = getProp data ''error''\<rparr>\<rparr>)))"
  using assms
  by (cases "fc w req")
     (auto simp: performFetch_def Let_def createInternalError_def split: sum.splits)

text \<open>
  C3. For a request with method \<open>eth_getBlockByNumber\<close>, when the transport answers with
  a status from 200 to 299 and the body \<open>Not Found\<close>, the attempt returns normally; of the
  state it changes only the call counter and \<open>result\<close> of the response envelope, which
  becomes \<open>null\<close>: \<open>error\<close> is as before and \<open>JSON.parse\<close> has not been called. This holds
  whichever \<open>fetchConfigFromReq\<close> built the request.
\<close>

theorem not_found_block_is_null:
  assumes "req_method req = ''eth_getBlockByNumber''"
      and "fetch pf (calls w) (fst (fc w req)) (snd (fc w req)) = Inr r"
      and "200 \<le> resp_status r" and "resp_status r \<le> 299"
      and "resp_text r = ''Not Found''"
  shows "performFetch pf fc req w
           = (Inr (), w\<lparr>calls := calls w + 1, res := (res w)\<lparr>res_result := Some JNull\<rparr>\<rparr>)"
  using assms by (simp add: performFetch_response ok_def Let_def)

lemma statusPlatform_fetch:
  "fetch (statusPlatform code body) n url fp = Inr \<lparr>resp_status = code, resp_text = body\<rparr>"
  by (simp add: statusPlatform_def sample_platform_def statusTransport_def)

lemma statusPlatform_rpcErrors: "rpcErrors (statusPlatform code body) = sample_errlib"
  by (simp add: statusPlatform_def sample_platform_def)

lemma statusPlatform_parse:
  "JSON_parse (statusPlatform code body) s = Inl ''Unexpected token in JSON''"
  by (simp add: statusPlatform_def sample_platform_def sample_parse_def)

theorem not_found_block_is_null_witness:
  "req_method sample_request = ''eth_getBlockByNumber''
   \<and> (\<forall>n url fp. fetch (statusPlatform 200 ''Not Found'') n url fp
         = Inr \<lparr>resp_status = 200, resp_text = ''Not Found''\<rparr>)
   \<and> JSON_parse (statusPlatform 200 ''Not Found'') ''Not Found'' = Inl ''Unexpected token in JSON''
   \<and> performFetch (statusPlatform 200 ''Not Found'')
        (fetchConfig (statusPlatform 200 ''Not Found'') (sample_middleware 5))
        sample_request world0
       = (Inr (), world0\<lparr>calls := 1, res := \<lparr>res_result = Some JNull, res_error = None\<rparr>\<rparr>)"
proof -
  let ?pf = "statusPlatform 200 ''Not Found''"
  let ?r = "\<lparr>resp_status = 200, resp_text = ''Not Found''\<rparr>"
  have h1: "req_method sample_request = ''eth_getBlockByNumber''"
    by (simp add: sample_request_def)
  have h2: "fetch ?pf (calls world0) u p = Inr ?r" for u p
    by (simp add: statusPlatform_fetch)
  have "performFetch ?pf (fetchConfig ?pf (sample_middleware 5)) sample_request world0
       = (Inr (), world0\<lparr>calls := calls world0 + 1,
                          res := (res world0)\<lparr>res_result := Some JNull\<rparr>\<rparr>)"
    using not_found_block_is_null [OF h1 h2, of "fetchConfig ?pf (sample_middleware 5)"]
    by simp
  then show ?thesis
    using h1 by (simp add: statusPlatform_fetch statusPlatform_parse world0_def)
qed

text \<open>
  C8. When the transport answers with a status outside 200 to 299, the attempt raises
  and changes nothing but the call counter: for 405 the library's method-not-found
  error; for 418 an internal error with the fixed message about rate limiting; for 503
  and 504 an internal error whose fixed message contains the phrase \<open>Gateway timeout\<close>;
  for every other status an internal error whose message is the raw body. The error
  library decides the string forms: where its method-not-found text has no retriable
  phrase the 405 error is not retried, and where it renders an internal error's message
  faithfully the gateway-timeout error is retried and the error of any other status is
  retried exactly when the raw body contains a retriable phrase.
\<close>

theorem non_success_status_errors:
  assumes "fetch pf (calls w) (fst (fc w req)) (snd (fc w req)) = Inr r"
      and "resp_status r < 200 \<or> 299 < resp_status r"
  shows "performFetch pf fc req w
           = (Inl (if resp_status r = 405 then MethodNotFound
                   else if resp_status r = 418 then
                     InternalError ''Request is being rate limited.''
                   else if resp_status r = 503 \<or> resp_status r = 504 then
                     InternalError ''Gateway timeout, request took too long to process.''
                   else InternalError (resp_text r)),
              w\<lparr>calls := calls w + 1\<rparr>)
       \<and> (\<not> retriableText (methodNotFoundText (rpcErrors pf)) \<longrightarrow> \<not> canRetry pf MethodNotFound)
       \<and> str_includes ''Gateway timeout, request took too long to process.'' ''Gateway timeout''
       \<and> (rendersMessage (rpcErrors pf) ''Gateway timeout, request took too long to process.''
            \<longrightarrow> canRetry pf (InternalError ''Gateway timeout, request took too long to process.''))
       \<and> (rendersMessage (rpcErrors pf) (resp_text r)
            \<longrightarrow> canRetry pf (InternalError (resp_text r)) = retriableText (resp_text r))"
proof (intro conjI impI)
  have "\<not> ok r" using assms(2) by (auto simp: ok_def)
  then show "performFetch pf fc req w
           = (Inl (if resp_status r = 405 then MethodNotFound
                   else if resp_status r = 418 then
                     InternalError ''Request is being rate limited.''
                   else if resp_status r = 503 \<or> resp_status r = 504 then
                     InternalError ''Gateway timeout, request took too long to process.''
                   else InternalError (resp_text r)),
              w\<lparr>calls := calls w + 1\<rparr>)"
    using assms(1) by (simp add: performFetch_response Let_def)
next
  assume "\<not> retriableText (methodNotFoundText (rpcErrors pf))"
  then show "\<not> canRetry pf MethodNotFound" by (simp add: canRetry_def)
next
  show "str_includes ''Gateway timeout, request took too long to process.'' ''Gateway timeout''"
    by simp
next
  assume "rendersMessage (rpcErrors pf) ''Gateway timeout, request took too long to process.''"
  moreover have "retriableText ''Gateway timeout, request took too long to process.''"
    by (simp add: retriableText_def RETRIABLE_ERRORS_def)
  ultimately show "canRetry pf (InternalError ''Gateway timeout, request took too long to process.'')"
    by (simp add: canRetry_def rendersMessage_def)
next
  assume "rendersMessage (rpcErrors pf) (resp_text r)"
  then show "canRetry pf (InternalError (resp_text r)) = retriableText (resp_text r)"
    by (simp add: canRetry_def rendersMessage_def)
qed

theorem non_success_status_errors_witness:
  "performFetch (statusPlatform 405 ''Method Not Allowed'')
       (fetchConfig (statusPlatform 405 ''Method Not Allowed'') (sample_middleware 5))
       sample_request world0
     = (Inl MethodNotFound, world0\<lparr>calls := 1\<rparr>)
   \<and> \<not> canRetry (statusPlatform 405 ''Method Not Allowed'') MethodNotFound
   \<and> performFetch (statusPlatform 418 ''slow down'')
       (fetchConfig (statusPlatform 418 ''slow down'') (sample_middleware 5))
       sample_request world0
     = (Inl (InternalError ''Request is being rate limited.''), world0\<lparr>calls := 1\<rparr>)
   \<and> performFetch (statusPlatform 504 ''<html>'')
       (fetchConfig (statusPlatform 504 ''<html>'') (sample_middleware 5))
       sample_request world0
     = (Inl (InternalError ''Gateway timeout, request took too long to process.''),
        world0\<lparr>calls := 1\<rparr>)
   \<and> canRetry (statusPlatform 504 ''<html>'')
         (InternalError ''Gateway timeout, request took too long to process.'')
   \<and> performFetch (statusPlatform 500 ''upstream said ECONNRESET'')
       (fetchConfig (statusPlatform 500 ''upstream said ECONNRESET'') (sample_middleware 5))
       sample_request world0
     = (Inl (InternalError ''upstream said ECONNRESET''), world0\<lparr>calls := 1\<rparr>)
   \<and> canRetry (statusPlatform 500 ''upstream said ECONNRESET'')
         (InternalError ''upstream said ECONNRESET'')
   \<and> performFetch (statusPlatform 404 ''no such route'')
       (fetchConfig (statusPlatform 404 ''no such route'') (sample_middleware 5))
       sample_request world0
     = (Inl (InternalError ''no such route''), world0\<lparr>calls := 1\<rparr>)
   \<and> \<not> canRetry (statusPlatform 404 ''no such route'') (InternalError ''no such route'')"
proof -
  have c0: "calls world0 + 1 = 1" by (simp add: world0_def)
  have nf: "\<not> retriableText (methodNotFoundText sample_errlib)"
    by (simp add: retriableText_def RETRIABLE_ERRORS_def sample_errlib_def)
  have gw: "rendersMessage sample_errlib ''Gateway timeout, request took too long to process.''"
    by (simp add: rendersMessage_def retriableText_def RETRIABLE_ERRORS_def sample_errlib_def)
  have r500: "rendersMessage sample_errlib ''upstream said ECONNRESET''"
    by (simp add: rendersMessage_def retriableText_def RETRIABLE_ERRORS_def sample_errlib_def)
  have r404: "rendersMessage sample_errlib ''no such route''"
    by (simp add: rendersMessage_def retriableText_def RETRIABLE_ERRORS_def sample_errlib_def)
  have t500: "retriableText ''upstream said ECONNRESET''"
    by (simp add: retriableText_def RETRIABLE_ERRORS_def)
  have t404: "\<not> retriableText ''no such route''"
    by (simp add: retriableText_def RETRIABLE_ERRORS_def)
  have a405:
    "performFetch (statusPlatform 405 ''Method Not Allowed'')
       (fetchConfig (statusPlatform 405 ''Method Not Allowed'') (sample_middleware 5))
       sample_request world0
     = (Inl MethodNotFound, world0\<lparr>calls := 1\<rparr>)
     \<and> \<not> canRetry (statusPlatform 405 ''Method Not Allowed'') MethodNotFound"
    using non_success_status_errors [of "statusPlatform 405 ''Method Not Allowed''" world0
        "fetchConfig (statusPlatform 405 ''Method Not Allowed'') (sample_middleware 5)"
        sample_request "\<lparr>resp_status = 405, resp_text = ''Method Not Allowed''\<rparr>"] nf c0
    by (simp add: statusPlatform_fetch statusPlatform_rpcErrors)
  have a418:
    "performFetch (statusPlatform 418 ''slow down'')
       (fetchConfig (statusPlatform 418 ''slow down'') (sample_middleware 5))
       sample_request world0
     = (Inl (InternalError ''Request is being rate limited.''), world0\<lparr>calls := 1\<rparr>)"
    using non_success_status_errors [of "statusPlatform 418 ''slow down''" world0
        "fetchConfig (statusPlatform 418 ''slow down'') (sample_middleware 5)"
        sample_request "\<lparr>resp_status = 418, resp_text = ''slow down''\<rparr>"] c0
    by (simp add: statusPlatform_fetch)
  have a504:
    "performFetch (statusPlatform 504 ''<html>'')
       (fetchConfig (statusPlatform 504 ''<html>'') (sample_middleware 5))
       sample_request world0
     = (Inl (InternalError ''Gateway timeout, request took too long to process.''),
        world0\<lparr>calls := 1\<rparr>)
     \<and> canRetry (statusPlatform 504 ''<html>'')
         (InternalError ''Gateway timeout, request took too long to process.'')"
    using non_success_status_errors [of "statusPlatform 504 ''<html>''" world0
        "fetchConfig (statusPlatform 504 ''<html>'') (sample_middleware 5)"
        sample_request "\<lparr>resp_status = 504, resp_text = ''<html>''\<rparr>"] gw c0
    by (simp add: statusPlatform_fetch statusPlatform_rpcErrors)
  have a500:
    "performFetch (statusPlatform 500 ''upstream said ECONNRESET'')
       (fetchConfig (statusPlatform 500 ''upstream said ECONNRESET'') (sample_middleware 5))
       sample_request world0
     = (Inl (InternalError ''upstream said ECONNRESET''), world0\<lparr>calls := 1\<rparr>)
     \<and> canRetry (statusPlatform 500 ''upstream said ECONNRESET'')
         (InternalError ''upstream said ECONNRESET'')"
    using non_success_status_errors [of "statusPlatform 500 ''upstream said ECONNRESET''" world0
        "fetchConfig (statusPlatform 500 ''upstream said ECONNRESET'') (sample_middleware 5)"
        sample_request "\<lparr>resp_status = 500, resp_text = ''upstream said ECONNRESET''\<rparr>"]
      r500 t500 c0
    by (simp add: statusPlatform_fetch statusPlatform_rpcErrors)
  have a404:
    "performFetch (statusPlatform 404 ''no such route'')
       (fetchConfig (statusPlatform 404 ''no such route'') (sample_middleware 5))
       sample_request world0
     = (Inl (InternalError ''no such route''), world0\<lparr>calls := 1\<rparr>)
     \<and> \<not> canRetry (statusPlatform 404 ''no such route'') (InternalError ''no such route'')"
    using non_success_status_errors [of "statusPlatform 404 ''no such route''" world0
        "fetchConfig (statusPlatform 404 ''no such route'') (sample_middleware 5)"
        sample_request "\<lparr>resp_status = 404, resp_text = ''no such route''\<rparr>"]
      r404 t404 c0
    by (simp add: statusPlatform_fetch statusPlatform_rpcErrors)
  show ?thesis using a405 a418 a504 a500 a404 by blast
qed

text \<open>
  C10. An attempt that raises, for whatever reason (the transport fails, the status is
  not a success, the body is not JSON, the body is \<open>null\<close>), leaves the response envelope
  as it found it.
\<close>

theorem failed_attempt_keeps_response:
  assumes "performFetch pf fc req w = (Inl e, w')"
  shows "res w' = res w"
proof (cases "fetch pf (calls w) (fst (fc w req)) (snd (fc w req))")
  case (Inl err)
  then show ?thesis
    using assms performFetch_transport_failure [of pf w fc req err] by auto
next
  case (Inr r)
  then show ?thesis
    using assms
    by (auto simp: performFetch_response Let_def split: if_splits sum.splits)
qed


theorem failed_attempt_keeps_response_witness:
  "performFetch (statusPlatform 200 ''<html>'')
       (fetchConfig (statusPlatform 200 ''<html>'') (sample_middleware 5)) sample_request
       (world0\<lparr>res := \<lparr>res_result = Some (JStr ''0x1''), res_error = None\<rparr>\<rparr>)
     = (Inl (Native ''SyntaxError'' ''Unexpected token in JSON''),
        world0\<lparr>res := \<lparr>res_result = Some (JStr ''0x1''), res_error = None\<rparr>,
               calls := 1, parses := 1\<rparr>)
   \<and> res (world0\<lparr>res := \<lparr>res_result = Some (JStr ''0x1''), res_error = None\<rparr>,
                   calls := 1, parses := 1\<rparr>)
     = res (world0\<lparr>res := \<lparr>res_result = Some (JStr ''0x1''), res_error = None\<rparr>\<rparr>)"
proof -
  let ?pf = "statusPlatform 200 ''<html>''"
  let ?w = "world0\<lparr>res := \<lparr>res_result = Some (JStr ''0x1''), res_error = None\<rparr>\<rparr>"
  have run: "performFetch ?pf (fetchConfig ?pf (sample_middleware 5)) sample_request ?w
     = (Inl (Native ''SyntaxError'' ''Unexpected token in JSON''), ?w\<lparr>calls := 1, parses := 1\<rparr>)"
    using performFetch_response [of ?pf ?w "fetchConfig ?pf (sample_middleware 5)" sample_request
        "\<lparr>resp_status = 200, resp_text = ''<html>''\<rparr>"]
    by (simp add: statusPlatform_fetch statusPlatform_parse ok_def world0_def)
  show ?thesis using run failed_attempt_keeps_response [OF run] by simp
qed

section \<open>Percent-encoding and its inverse\<close>

lemma hexVal_hexDigit_all: "\<forall>n \<in> set [0..<16]. hexVal (hexDigit n) = Some n"
  by code_simp

lemma hexVal_hexDigit: "n < 16 \<Longrightarrow> hexVal (hexDigit n) = Some n"
  using hexVal_hexDigit_all by simp

lemma hexDigit_plain_all:
  "\<forall>n \<in> set [0..<16]. hexDigit n \<notin> {CHR ''#'', CHR ''&'', CHR ''?'', CHR ''='', CHR ''%''}"
  by code_simp

lemma hexDigit_plain:
  "n < 16 \<Longrightarrow> hexDigit n \<notin> {CHR ''#'', CHR ''&'', CHR ''?'', CHR ''='', CHR ''%''}"
  using hexDigit_plain_all by simp

lemma of_char_less_256: "(of_char c :: nat) < 256"
proof -
  have "(of_char c :: nat) mod 256 = of_char c" by simp
  then show ?thesis by (metis mod_less_divisor zero_less_numeral)
qed

lemma uriUnreserved_plain:
  "uriUnreserved c \<Longrightarrow> c \<notin> {CHR ''#'', CHR ''&'', CHR ''?'', CHR ''='', CHR ''%''}"
  by (auto simp: uriUnreserved_def)

lemma decode_plain_char:
  "c \<noteq> CHR ''%'' \<Longrightarrow> decodeURIComponent (c # s) = map_option ((#) c) (decodeURIComponent s)"
  by (cases s rule: decodeURIComponent.cases) simp_all

lemma decode_escape:
  "decodeURIComponent (CHR ''%'' # a # b # s) =
     (case (hexVal a, hexVal b) of
        (Some x, Some y) \<Rightarrow> map_option ((#) (char_of (16 * x + y))) (decodeURIComponent s)
      | _ \<Rightarrow> None)"
  by simp

lemma decode_percentEncode:
  "decodeURIComponent (percentEncode c @ s) = map_option ((#) c) (decodeURIComponent s)"
proof -
  let ?k = "of_char c :: nat"
  have hi: "?k div 16 < 16"
    using of_char_less_256 [of c] by (intro less_mult_imp_div_less) simp
  have lo: "?k mod 16 < 16" by simp
  have "char_of (16 * (?k div 16) + ?k mod 16) = c" by simp
  then show ?thesis
    using hi lo by (simp add: percentEncode_def hexVal_hexDigit del: decodeURIComponent.simps add: decode_escape)
qed

text \<open>Decoding undoes encoding.\<close>

lemma decode_encode: "decodeURIComponent (encodeURIComponent s) = Some s"
proof (induction s)
  case Nil
  then show ?case by (simp add: encodeURIComponent_def)
next
  case (Cons c s)
  show ?case
  proof (cases "uriUnreserved c")
    case True
    then have "c \<noteq> CHR ''%''" using uriUnreserved_plain by auto
    then show ?thesis
      using Cons True by (simp add: encodeURIComponent_def decode_plain_char)
  next
    case False
    then show ?thesis
      using Cons decode_percentEncode [of c "encodeURIComponent s"]
      by (simp add: encodeURIComponent_def)
  qed
qed

text \<open>The encoded text has none of the characters that structure a query.\<close>

lemma encode_plain:
  "set (encodeURIComponent s) \<inter> {CHR ''#'', CHR ''&'', CHR ''?'', CHR ''=''} = {}"
proof (induction s)
  case Nil
  then show ?case by (simp add: encodeURIComponent_def)
next
  case (Cons c s)
  have hi: "(of_char c :: nat) div 16 < 16"
    using of_char_less_256 [of c] by (intro less_mult_imp_div_less) simp
  have lo: "(of_char c :: nat) mod 16 < 16" by simp
  have "set (if uriUnreserved c then [c] else percentEncode c)
          \<inter> {CHR ''#'', CHR ''&'', CHR ''?'', CHR ''=''} = {}"
    using uriUnreserved_plain [of c] hexDigit_plain [OF hi] hexDigit_plain [OF lo]
    by (auto simp: percentEncode_def)
  then show ?case using Cons by (auto simp: encodeURIComponent_def)
qed

section \<open>Reading the query\<close>

lemma splitOn_without: "d \<notin> set s \<Longrightarrow> splitOn d s = [s]"
  by (induction s) auto

lemma dropWhile_until: "d \<notin> set pre \<Longrightarrow> dropWhile (\<lambda>c. c \<noteq> d) (pre @ d # q) = d # q"
  by (induction pre) auto

lemma takeWhile_all: "d \<notin> set s \<Longrightarrow> takeWhile (\<lambda>c. c \<noteq> d) s = s"
  by (induction s) auto

lemma urlQuery_append:
  assumes "CHR ''?'' \<notin> set pre" and "CHR ''#'' \<notin> set pre" and "CHR ''#'' \<notin> set q"
  shows "urlQuery (pre @ CHR ''?'' # q) = Some q"
proof -
  have tw: "takeWhile (\<lambda>c. c \<noteq> CHR ''#'') (pre @ CHR ''?'' # q) = pre @ CHR ''?'' # q"
    using assms by (intro takeWhile_all) auto
  have dw: "dropWhile (\<lambda>c. c \<noteq> CHR ''?'') (pre @ CHR ''?'' # q) = CHR ''?'' # q"
    using assms(1) by (rule dropWhile_until)
  show ?thesis
    by (simp only: urlQuery_def Let_def tw dw) simp
qed

lemma queryParam_params:
  assumes "CHR ''?'' \<notin> set pre" and "CHR ''#'' \<notin> set pre"
      and "CHR ''#'' \<notin> set v" and "CHR ''&'' \<notin> set v"
  shows "queryParam (pre @ ''?params='' @ v) ''params'' = Some v"
proof -
  have q: "urlQuery (pre @ CHR ''?'' # (''params='' @ v)) = Some (''params='' @ v)"
    using assms by (intro urlQuery_append) auto
  have s: "splitOn CHR ''&'' (''params='' @ v) = [''params='' @ v]"
    using assms by (intro splitOn_without) auto
  have n: "nameValue (''params='' @ v) = (''params'', v)"
    by (simp add: nameValue_def)
  have url: "pre @ ''?params='' @ v = pre @ CHR ''?'' # (''params='' @ v)"
    by simp
  have "queryParam (pre @ CHR ''?'' # (''params='' @ v)) ''params''
          = map_of (map nameValue (splitOn CHR ''&'' (''params='' @ v))) ''params''"
    by (simp only: queryParam_def q option.simps)
  also have "\<dots> = map_of [(''params'', v)] ''params''"
    by (simp only: s list.map n)
  also have "\<dots> = Some v"
    by simp
  finally show ?thesis
    by (simp only: url)
qed

section \<open>The outbound request\<close>

lemma post_body:
  "req_method req \<in> set (postMethods pf) \<Longrightarrow>
   fp_body (snd (fetchConfigFromReq pf network req source))
     = Some (JSON_stringify pf (cleanReq req))"
  by (simp add: fetchConfigFromReq_def Let_def)

lemma post_body_brave:
  "req_method req \<in> set (postMethods pf) \<Longrightarrow>
   fp_body (snd (fetchConfigFromReq_brave pf w network req source dev))
     = Some (JSON_stringify pf (cleanReq req))"
  by (simp add: fetchConfigFromReq_brave_def Let_def)

lemma cleanReq_ignores:
  "cleanReq (req\<lparr>req_origin := origin, req_extra := extra\<rparr>) = cleanReq req"
  by (simp add: cleanReq_def)

text \<open>
  C4. For a request whose method is on the POST allow-list, \<open>fetchConfigFromReq\<close> of
  either source file sets the body to the JSON text of an object with exactly the
  members \<open>id\<close>, \<open>jsonrpc\<close>, \<open>method\<close> and \<open>params\<close>, taken from the request; the body is
  the same whatever the request's origin and other properties are. That the text is
  valid JSON is the contract of the platform's \<open>JSON.stringify\<close> and \<open>JSON.parse\<close>,
  assumed here for this object.
\<close>

theorem post_body_has_four_fields:
  assumes "req_method req \<in> set (postMethods pf)"
      and "JSON_parse pf (JSON_stringify pf (cleanReq req)) = Inr (cleanReq req)"
  shows "\<exists>body.
           fp_body (snd (fetchConfigFromReq pf network req source)) = Some body
         \<and> fp_body (snd (fetchConfigFromReq_brave pf w network req source dev)) = Some body
         \<and> JSON_parse pf body
             = Inr (JObj [(''id'', req_id req), (''jsonrpc'', req_jsonrpc req),
                          (''method'', JStr (req_method req)),
                          (''params'', JArr (req_params req))])
         \<and> (\<forall>origin extra.
               fp_body (snd (fetchConfigFromReq pf network
                               (req\<lparr>req_origin := origin, req_extra := extra\<rparr>) source))
                 = Some body
             \<and> fp_body (snd (fetchConfigFromReq_brave pf w network
                               (req\<lparr>req_origin := origin, req_extra := extra\<rparr>) source dev))
                 = Some body)"
proof -
  let ?body = "JSON_stringify pf (cleanReq req)"
  have "JSON_parse pf ?body
          = Inr (JObj [(''id'', req_id req), (''jsonrpc'', req_jsonrpc req),
                       (''method'', JStr (req_method req)),
                       (''params'', JArr (req_params req))])"
    using assms(2) by (simp add: cleanReq_def)
  moreover have "fp_body (snd (fetchConfigFromReq pf network
                               (req\<lparr>req_origin := origin, req_extra := extra\<rparr>) source))
                 = Some ?body" for origin extra
    using assms(1)
      post_body [of "req\<lparr>req_origin := origin, req_extra := extra\<rparr>" pf network source]
    by (simp add: cleanReq_ignores)
  moreover have "fp_body (snd (fetchConfigFromReq_brave pf w network
                               (req\<lparr>req_origin := origin, req_extra := extra\<rparr>) source dev))
                 = Some ?body" for origin extra
    using assms(1)
      post_body_brave [of "req\<lparr>req_origin := origin, req_extra := extra\<rparr>" pf w network source dev]
    by (simp add: cleanReq_ignores)
  ultimately show ?thesis
    using assms(1) by (simp add: post_body post_body_brave)
qed

lemma callRequest_text:
  "sample_stringify (cleanReq callRequest)
     = ''{\"id\":1,\"jsonrpc\":\"2.0\",\"method\":\"eth_call\",\"params\":[\"0x1b4\",true]}''"
  by code_simp

theorem post_body_has_four_fields_witness:
  "req_method callRequest \<in> set (postMethods (jsonPlatform [cleanReq callRequest]))
   \<and> req_extra callRequest = [(''origin'', JStr ''example.org''), (''tabId'', JNum 7)]
   \<and> (\<exists>body.
         fp_body (snd (fetchConfigFromReq (jsonPlatform [cleanReq callRequest]) ''mainnet''
                         callRequest (Some ''metamask''))) = Some body
       \<and> fp_body (snd (fetchConfigFromReq_brave (jsonPlatform [cleanReq callRequest]) world0
                         ''mainnet'' callRequest (Some ''metamask'') False)) = Some body
       \<and> body = ''{\"id\":1,\"jsonrpc\":\"2.0\",\"method\":\"eth_call\",\"params\":[\"0x1b4\",true]}''
       \<and> JSON_parse (jsonPlatform [cleanReq callRequest]) body
           = Inr (JObj [(''id'', JNum 1), (''jsonrpc'', JStr ''2.0''),
                        (''method'', JStr ''eth_call''),
                        (''params'', JArr [JStr ''0x1b4'', JBool True])]))"
proof -
  let ?pf = "jsonPlatform [cleanReq callRequest]"
  have h1: "req_method callRequest \<in> set (postMethods ?pf)"
    by (simp add: callRequest_def jsonPlatform_def sample_platform_def)
  have h2: "JSON_parse ?pf (JSON_stringify ?pf (cleanReq callRequest)) = Inr (cleanReq callRequest)"
    by (simp add: jsonPlatform_def sample_platform_def sample_parse_def)
  have x: "req_extra callRequest = [(''origin'', JStr ''example.org''), (''tabId'', JNum 7)]"
    by (simp add: callRequest_def sample_request_def)
  have st: "JSON_stringify ?pf = sample_stringify"
    by (simp add: jsonPlatform_def sample_platform_def)
  obtain body where
    b1: "fp_body (snd (fetchConfigFromReq ?pf ''mainnet'' callRequest (Some ''metamask''))) = Some body"
    and b2: "fp_body (snd (fetchConfigFromReq_brave ?pf world0 ''mainnet'' callRequest
                        (Some ''metamask'') False)) = Some body"
    and b3: "JSON_parse ?pf body
           = Inr (JObj [(''id'', req_id callRequest), (''jsonrpc'', req_jsonrpc callRequest),
                        (''method'', JStr (req_method callRequest)),
                        (''params'', JArr (req_params callRequest))])"
    using post_body_has_four_fields [OF h1 h2, of "''mainnet''" "Some ''metamask''" world0 False]
    by blast
  have "body = sample_stringify (cleanReq callRequest)"
    using b1 h1 by (simp add: post_body st)
  then have b4: "body = ''{\"id\":1,\"jsonrpc\":\"2.0\",\"method\":\"eth_call\",\"params\":[\"0x1b4\",true]}''"
    by (simp only: callRequest_text)
  have b5: "JSON_parse ?pf body
           = Inr (JObj [(''id'', JNum 1), (''jsonrpc'', JStr ''2.0''),
                        (''method'', JStr ''eth_call''),
                        (''params'', JArr [JStr ''0x1b4'', JBool True])])"
    using b3 by (simp add: callRequest_def sample_request_def)
  show ?thesis using h1 x b1 b2 b4 b5 by blast
qed

lemma get_url:
  "req_method req \<notin> set (postMethods pf) \<Longrightarrow>
   fst (fetchConfigFromReq pf network req source)
     = (''https://'' @ network @ ''.infura.io/v3/''
          @ (case getProjectID pf of Sync projectId \<Rightarrow> projectId | _ \<Rightarrow> [])
          @ ''/'' @ req_method req)
       @ ''?params='' @ encodeURIComponent (JSON_stringify pf (JArr (req_params req)))"
  by (simp add: fetchConfigFromReq_def Let_def split: callback.splits)

lemma get_url_brave:
  "req_method req \<notin> set (postMethods pf) \<Longrightarrow>
   fst (fetchConfigFromReq_brave pf w network req source dev)
     = (''https://'' @ network @ ''-''
          @ (if dev then ''staging-infura.bravesoftware'' else ''infura.brave'') @ ''.com/''
          @ BRAVE_INFURA_PROJECT_ID w @ ''/'' @ req_method req)
       @ ''?params='' @ encodeURIComponent (JSON_stringify pf (JArr (req_params req)))"
  by (simp add: fetchConfigFromReq_brave_def Let_def)

lemma paramsOfUrl_encoded:
  assumes "CHR ''?'' \<notin> set pre" and "CHR ''#'' \<notin> set pre"
      and "JSON_parse pf s = Inr j"
  shows "paramsOfUrl pf (pre @ ''?params='' @ encodeURIComponent s) = Some j"
proof -
  have "CHR ''#'' \<notin> set (encodeURIComponent s)" and "CHR ''&'' \<notin> set (encodeURIComponent s)"
    using encode_plain [of s] by auto
  then have "queryParam (pre @ ''?params='' @ encodeURIComponent s) ''params''
               = Some (encodeURIComponent s)"
    using assms by (intro queryParam_params) auto
  then show ?thesis
    using assms(3) by (simp only: paramsOfUrl_def option.simps decode_encode sum.simps)
qed

text \<open>
  C5. For a request whose method is not on the POST allow-list, and where the network
  name, the project id and the method name contain neither \<open>?\<close> nor \<open>#\<close>, the value of
  \<open>params\<close> in the query of the URL built by \<open>fetchConfigFromReq\<close> of either source file,
  percent-decoded and parsed as JSON, is the request's \<open>params\<close>. That parsing undoes
  \<open>JSON.stringify\<close> is the platform's contract, assumed here for this array.
\<close>

theorem params_round_trip:
  assumes "req_method req \<notin> set (postMethods pf)"
      and "JSON_parse pf (JSON_stringify pf (JArr (req_params req))) = Inr (JArr (req_params req))"
      and "plainSegment network" and "plainSegment (req_method req)"
  shows "((\<forall>projectId. getProjectID pf = Sync projectId \<longrightarrow> plainSegment projectId)
            \<longrightarrow> paramsOfUrl pf (fst (fetchConfigFromReq pf network req source))
                  = Some (JArr (req_params req)))
       \<and> (plainSegment (BRAVE_INFURA_PROJECT_ID w)
            \<longrightarrow> paramsOfUrl pf (fst (fetchConfigFromReq_brave pf w network req source dev))
                  = Some (JArr (req_params req)))"
proof (intro conjI impI)
  assume pid: "\<forall>projectId. getProjectID pf = Sync projectId \<longrightarrow> plainSegment projectId"
  let ?pre = "''https://'' @ network @ ''.infura.io/v3/''
          @ (case getProjectID pf of Sync projectId \<Rightarrow> projectId | _ \<Rightarrow> [])
          @ ''/'' @ req_method req"
  have "plainSegment (case getProjectID pf of Sync projectId \<Rightarrow> projectId | _ \<Rightarrow> [])"
    using pid by (cases "getProjectID pf") (simp_all add: plainSegment_def)
  then have "CHR ''?'' \<notin> set ?pre" and "CHR ''#'' \<notin> set ?pre"
    using assms(3,4) by (auto simp: plainSegment_def)
  then have "paramsOfUrl pf (?pre @ ''?params=''
                @ encodeURIComponent (JSON_stringify pf (JArr (req_params req))))
               = Some (JArr (req_params req))"
    using assms(2) by (rule paramsOfUrl_encoded)
  then show "paramsOfUrl pf (fst (fetchConfigFromReq pf network req source))
               = Some (JArr (req_params req))"
    by (simp only: get_url [OF assms(1)])
next
  assume pid: "plainSegment (BRAVE_INFURA_PROJECT_ID w)"
  let ?pre = "''https://'' @ network @ ''-''
          @ (if dev then ''staging-infura.bravesoftware'' else ''infura.brave'') @ ''.com/''
          @ BRAVE_INFURA_PROJECT_ID w @ ''/'' @ req_method req"
  have "CHR ''?'' \<notin> set ?pre" and "CHR ''#'' \<notin> set ?pre"
    using pid assms(3,4) by (auto simp: plainSegment_def)
  then have "paramsOfUrl pf (?pre @ ''?params=''
                @ encodeURIComponent (JSON_stringify pf (JArr (req_params req))))
               = Some (JArr (req_params req))"
    using assms(2) by (rule paramsOfUrl_encoded)
  then show "paramsOfUrl pf (fst (fetchConfigFromReq_brave pf w network req source dev))
               = Some (JArr (req_params req))"
    by (simp only: get_url_brave [OF assms(1)])
qed

lemma sample_url:
  "fst (fetchConfigFromReq (jsonPlatform [JArr (req_params sample_request)]) ''mainnet''
          sample_request None)
     = ''https://mainnet.infura.io/v3/0123456789abcdef/eth_getBlockByNumber?params=%5B%220x1b4%22%2Ctrue%5D''"
  by code_simp

lemma sample_url_brave:
  "fst (fetchConfigFromReq_brave (jsonPlatform [JArr (req_params sample_request)])
          (world0\<lparr>BRAVE_INFURA_PROJECT_ID := ''0123456789abcdef''\<rparr>) ''mainnet''
          sample_request None True)
     = ''https://mainnet-staging-infura.bravesoftware.com/0123456789abcdef/eth_getBlockByNumber?params=%5B%220x1b4%22%2Ctrue%5D''"
  by code_simp

theorem params_round_trip_witness:
  "req_method sample_request \<notin> set (postMethods (jsonPlatform [JArr (req_params sample_request)]))
   \<and> plainSegment ''mainnet'' \<and> plainSegment (req_method sample_request)
   \<and> plainSegment ''0123456789abcdef''
   \<and> req_params sample_request = [JStr ''0x1b4'', JBool True]
   \<and> paramsOfUrl (jsonPlatform [JArr (req_params sample_request)])
        ''https://mainnet.infura.io/v3/0123456789abcdef/eth_getBlockByNumber?params=%5B%220x1b4%22%2Ctrue%5D''
       = Some (JArr [JStr ''0x1b4'', JBool True])
   \<and> paramsOfUrl (jsonPlatform [JArr (req_params sample_request)])
        ''https://mainnet-staging-infura.bravesoftware.com/0123456789abcdef/eth_getBlockByNumber?params=%5B%220x1b4%22%2Ctrue%5D''
       = Some (JArr [JStr ''0x1b4'', JBool True])"
proof -
  let ?pf = "jsonPlatform [JArr (req_params sample_request)]"
  let ?wb = "world0\<lparr>BRAVE_INFURA_PROJECT_ID := ''0123456789abcdef''\<rparr>"
  have h1: "req_method sample_request \<notin> set (postMethods ?pf)"
    by (simp add: sample_request_def jsonPlatform_def sample_platform_def)
  have h2: "JSON_parse ?pf (JSON_stringify ?pf (JArr (req_params sample_request)))
              = Inr (JArr (req_params sample_request))"
    by (simp add: jsonPlatform_def sample_platform_def sample_parse_def)
  have h3: "plainSegment ''mainnet''" by (simp add: plainSegment_def)
  have h4: "plainSegment (req_method sample_request)"
    by (simp add: plainSegment_def sample_request_def)
  have h5: "plainSegment ''0123456789abcdef''" by (simp add: plainSegment_def)
  have p: "req_params sample_request = [JStr ''0x1b4'', JBool True]"
    by (simp add: sample_request_def)
  have g: "\<forall>projectId. getProjectID ?pf = Sync projectId \<longrightarrow> plainSegment projectId"
    using h5 by (simp add: jsonPlatform_def sample_platform_def)
  have b: "plainSegment (BRAVE_INFURA_PROJECT_ID ?wb)" using h5 by simp
  note main = params_round_trip [OF h1 h2 h3 h4, of None ?wb True]
  have r1: "paramsOfUrl ?pf (fst (fetchConfigFromReq ?pf ''mainnet'' sample_request None))
              = Some (JArr (req_params sample_request))"
    using main g by blast
  have r2: "paramsOfUrl ?pf (fst (fetchConfigFromReq_brave ?pf ?wb ''mainnet'' sample_request None True))
              = Some (JArr (req_params sample_request))"
    using main b by blast
  show ?thesis
    using h1 h3 h4 h5 p r1 r2 unfolding sample_url sample_url_brave by simp
qed

text \<open>
  A method name is not encoded. The request \<open>oddRequest\<close> has the method
  \<open>eth_getBalance?tag=latest\<close>, which is not on the allow-list: the query of its URL
  starts inside the method name and has no parameter \<open>params\<close>.
\<close>

theorem params_round_trip_counterexample:
  "req_method oddRequest \<notin> set (postMethods (jsonPlatform [JArr (req_params oddRequest)]))
   \<and> JSON_parse (jsonPlatform [JArr (req_params oddRequest)])
        (JSON_stringify (jsonPlatform [JArr (req_params oddRequest)]) (JArr (req_params oddRequest)))
       = Inr (JArr (req_params oddRequest))
   \<and> fst (fetchConfigFromReq (jsonPlatform [JArr (req_params oddRequest)]) ''mainnet'' oddRequest None)
       = ''https://mainnet.infura.io/v3/0123456789abcdef/eth_getBalance?tag=latest?params=%5B%220x1b4%22%2Ctrue%5D''
   \<and> paramsOfUrl (jsonPlatform [JArr (req_params oddRequest)])
        (fst (fetchConfigFromReq (jsonPlatform [JArr (req_params oddRequest)]) ''mainnet''
                oddRequest None))
       \<noteq> Some (JArr (req_params oddRequest))
   \<and> paramsOfUrl (jsonPlatform [JArr (req_params oddRequest)])
        (fst (fetchConfigFromReq_brave (jsonPlatform [JArr (req_params oddRequest)]) world0
                ''mainnet'' oddRequest None False))
       \<noteq> Some (JArr (req_params oddRequest))"
  by code_simp

end
